theory Spec2Isabelle
  imports Main
begin

section \<open>Data model of \<^verbatim>\<open>src/utils.py\<close>\<close>

text \<open>
  The process environment \<^verbatim>\<open>os.environ\<close> is a dictionary from names to
  values. A key may be present with the empty string as its value, which is
  different from the key being absent.
\<close>

type_synonym env = "string \<rightharpoonup> string"

text \<open>Records written through \<^verbatim>\<open>logger\<close>, oldest first.\<close>

datatype level = INFO | WARNING | ERROR

type_synonym log = "(level \<times> string) list"

text \<open>
  A Python exception (an instance of \<^verbatim>\<open>Exception\<close>), as far as the code
  observes it: the name of its class and the text \<^verbatim>\<open>str(e)\<close>.
\<close>

datatype exn = Exn (exn_type: string) (exn_str: string)

text \<open>
  The Flask \<^verbatim>\<open>request\<close> proxy: either the code runs outside a request
  (the proxy raises \<^verbatim>\<open>RuntimeError\<close>), or there is a request with headers.
\<close>

datatype request_context = OutsideRequestContext | Request (headers: "string \<rightharpoonup> string")

text \<open>
  Python values as they come out of \<^verbatim>\<open>json.loads\<close> and go into the result
  dictionaries. Of a float the code only observes its text and whether it is zero.
  A dictionary keeps its items in insertion order.
\<close>

datatype pyval =
    PNone
  | PBool bool
  | PInt int
  | PFloat (float_repr: string) (float_nonzero: bool)
  | PStr string
  | PList "pyval list"
  | PDict "(pyval \<times> pyval) list"

type_synonym result_dict = "(string \<times> pyval) list"

text \<open>
  A \<^verbatim>\<open>WorkspaceClient\<close> object: its identity (the objects constructed are
  numbered), the \<^verbatim>\<open>host\<close> and \<^verbatim>\<open>token\<close> keyword arguments it was
  constructed with (\<open>None\<close> when not passed) and the environment its configuration
  was read from at construction.
\<close>

datatype client = WorkspaceClient
  (client_ref: nat) (client_host: "string option") (client_token: "string option")
  (config_env: env)

text \<open>The SDK's response objects, restricted to the attributes the code reads.\<close>

record result_data =
  data_array :: "string option list list option"

record statement_response =
  statement_id :: "string option"
  result :: "result_data option"

record run =
  run_id :: "int option"

datatype chat_message_role = USER | SYSTEM

record chat_message =
  role :: chat_message_role
  content :: pyval

text \<open>
  Everything outside the repository that the code calls: the Databricks SDK (the
  constructor of a client raises or not, for given arguments and environment; each
  service call raises or returns), \<^verbatim>\<open>json.loads\<close>, Python's \<^verbatim>\<open>repr\<close> of
  containers and \<^verbatim>\<open>str.strip\<close> (which knows the white space of all of Unicode), the
  text pydantic renders for a \<^verbatim>\<open>ValidationError\<close> of a model with given field
  errors, the value pandas puts into a record for a missing cell of a column (it depends
  on the version of pandas and on the other cells of the column: \<^verbatim>\<open>None\<close> or
  \<^verbatim>\<open>NaN\<close>), the HTTP post to Azure Log Analytics (by log type), and the clock
  (\<^verbatim>\<open>datetime.now(timezone.utc).isoformat()\<close>; all reads during one call yield
  the same text).
\<close>

record externals =
  workspace_client_init :: "string option \<Rightarrow> string option \<Rightarrow> env \<Rightarrow> exn option"
  current_user_me :: "client \<Rightarrow> exn + string"
  execute_statement ::
    "client \<Rightarrow> string \<Rightarrow> string \<Rightarrow> (string \<times> string) list \<Rightarrow> exn + statement_response"
  run_now :: "client \<Rightarrow> int \<Rightarrow> (string \<times> string) list \<Rightarrow> exn + run"
  serving_query :: "client \<Rightarrow> string \<Rightarrow> chat_message list \<Rightarrow> exn + pyval"
  json_loads :: "string \<Rightarrow> exn + pyval"
  py_repr :: "pyval \<Rightarrow> string"
  str_strip :: "string \<Rightarrow> string"
  pandas_na :: "string option list list \<Rightarrow> nat \<Rightarrow> pyval"
  validation_error_str :: "string \<Rightarrow> string list \<Rightarrow> string"
  azure_post :: "string \<Rightarrow> exn option"
  utc_now :: string

text \<open>
  The mutable state of the process: the environment, the log, the module-level
  variables \<^verbatim>\<open>databricks_client\<close> (\<open>None\<close> while the name is unbound,
  \<open>Some None\<close> when bound to \<^verbatim>\<open>None\<close>), \<^verbatim>\<open>azure_log_workspace_id\<close> and
  \<^verbatim>\<open>azure_log_shared_key\<close>, and the number of client objects constructed so far.
\<close>

record state =
  environ :: env
  logged :: log
  databricks_client :: "client option option"
  azure_log_workspace_id :: "string option"
  azure_log_shared_key :: "string option"
  allocated :: nat

section \<open>Python primitives\<close>

text \<open>Truth value of an \<^verbatim>\<open>Optional[str]\<close>: \<^verbatim>\<open>None\<close> and \<^verbatim>\<open>""\<close> are false.\<close>

definition truthy :: "string option \<Rightarrow> bool" where
  "truthy v = (case v of None \<Rightarrow> False | Some s \<Rightarrow> s \<noteq> [])"

text \<open>Truth value of a JSON value.\<close>

fun py_bool :: "pyval \<Rightarrow> bool" where
  "py_bool PNone = False"
| "py_bool (PBool b) = b"
| "py_bool (PInt i) = (i \<noteq> 0)"
| "py_bool (PFloat r nz) = nz"
| "py_bool (PStr s) = (s \<noteq> [])"
| "py_bool (PList xs) = (xs \<noteq> [])"
| "py_bool (PDict kvs) = (kvs \<noteq> [])"

fun type_name :: "pyval \<Rightarrow> string" where
  "type_name PNone = ''NoneType''"
| "type_name (PBool b) = ''bool''"
| "type_name (PInt i) = ''int''"
| "type_name (PFloat r nz) = ''float''"
| "type_name (PStr s) = ''str''"
| "type_name (PList xs) = ''list''"
| "type_name (PDict kvs) = ''dict''"

text \<open>Decimal text of an integer, as \<^verbatim>\<open>str\<close> and f-strings print it.\<close>

function str_nat :: "nat \<Rightarrow> string" where
  "str_nat n = (if n < 10 then [''0123456789'' ! n]
                else str_nat (n div 10) @ [''0123456789'' ! (n mod 10)])"
  by pat_completeness auto
termination
  by (relation "measure id") auto

definition str_int :: "int \<Rightarrow> string" where
  "str_int i = (if i < 0 then ''-'' @ str_nat (nat (- i)) else str_nat (nat i))"

text \<open>\<^verbatim>\<open>str(v)\<close>; for a list or a dictionary it is Python's \<^verbatim>\<open>repr\<close>.\<close>

fun py_str :: "externals \<Rightarrow> pyval \<Rightarrow> string" where
  "py_str x PNone = ''None''"
| "py_str x (PBool b) = (if b then ''True'' else ''False'')"
| "py_str x (PInt i) = str_int i"
| "py_str x (PFloat r nz) = r"
| "py_str x (PStr s) = s"
| "py_str x (PList xs) = py_repr x (PList xs)"
| "py_str x (PDict kvs) = py_repr x (PDict kvs)"

text \<open>\<^verbatim>\<open>sub in s\<close> on strings.\<close>

fun py_in :: "string \<Rightarrow> string \<Rightarrow> bool" where
  "py_in sub [] = (sub = [])"
| "py_in sub (c # cs) = (take (length sub) (c # cs) = sub \<or> py_in sub cs)"

text \<open>\<^verbatim>\<open>d.get(key, default)\<close>; a value that is not a dictionary has no \<^verbatim>\<open>get\<close>.\<close>

definition py_get :: "pyval \<Rightarrow> string \<Rightarrow> pyval \<Rightarrow> exn + pyval" where
  "py_get d key dflt =
     (case d of
        PDict kvs \<Rightarrow> Inr (case map_of kvs (PStr key) of None \<Rightarrow> dflt | Some v \<Rightarrow> v)
      | _ \<Rightarrow> Inl (Exn ''AttributeError''
                  ([CHR 0x27] @ type_name d @ [CHR 0x27] @ '' object has no attribute ''
                   @ [CHR 0x27] @ ''get'' @ [CHR 0x27])))"

text \<open>The items a \<^verbatim>\<open>for\<close> loop over a value visits.\<close>

definition py_iter :: "pyval \<Rightarrow> exn + pyval list" where
  "py_iter v =
     (case v of
        PList xs \<Rightarrow> Inr xs
      | PDict kvs \<Rightarrow> Inr (map fst kvs)
      | PStr s \<Rightarrow> Inr (map (\<lambda>c. PStr [c]) s)
      | _ \<Rightarrow> Inl (Exn ''TypeError''
                  ([CHR 0x27] @ type_name v @ [CHR 0x27] @ '' object is not iterable'')))"

section \<open>Logging, environment and clients\<close>

definition logger_info :: "string \<Rightarrow> state \<Rightarrow> state" where
  "logger_info m s = s\<lparr>logged := logged s @ [(INFO, m)]\<rparr>"

definition logger_warning :: "string \<Rightarrow> state \<Rightarrow> state" where
  "logger_warning m s = s\<lparr>logged := logged s @ [(WARNING, m)]\<rparr>"

definition logger_error :: "string \<Rightarrow> state \<Rightarrow> state" where
  "logger_error m s = s\<lparr>logged := logged s @ [(ERROR, m)]\<rparr>"

text \<open>\<^verbatim>\<open>os.getenv(k)\<close>.\<close>

definition os_getenv :: "string \<Rightarrow> state \<Rightarrow> string option" where
  "os_getenv k s = environ s k"

text \<open>\<^verbatim>\<open>if k in os.environ: del os.environ[k]\<close>.\<close>

definition del_environ :: "string \<Rightarrow> state \<Rightarrow> state" where
  "del_environ k s = (if environ s k \<noteq> None then s\<lparr>environ := (environ s)(k := None)\<rparr> else s)"

text \<open>\<^verbatim>\<open>if original: os.environ[k] = original\<close>.\<close>

definition restore_environ :: "string \<Rightarrow> string option \<Rightarrow> state \<Rightarrow> state" where
  "restore_environ k original s =
     (case original of
        None \<Rightarrow> s
      | Some v \<Rightarrow> if v \<noteq> [] then s\<lparr>environ := (environ s)(k \<mapsto> v)\<rparr> else s)"

text \<open>
  A call of the constructor \<^verbatim>\<open>WorkspaceClient(host=h, token=t)\<close> in state \<open>s\<close>:
  it raises, or it yields a new object.
\<close>

definition new_WorkspaceClient ::
  "externals \<Rightarrow> string option \<Rightarrow> string option \<Rightarrow> state \<Rightarrow> (exn + client) \<times> state" where
  "new_WorkspaceClient x h t s =
     (case workspace_client_init x h t (environ s) of
        Some e \<Rightarrow> (Inl e, s)
      | None \<Rightarrow> (Inr (WorkspaceClient (allocated s) h t (environ s)),
                 s\<lparr>allocated := Suc (allocated s)\<rparr>))"

text \<open>
  \<^verbatim>\<open>send_to_azure_logs\<close>: nothing without the two settings; otherwise the body
  of the \<^verbatim>\<open>try\<close> succeeds or its exception is logged. The payload only goes to
  the external service.
\<close>

definition send_to_azure_logs :: "externals \<Rightarrow> string \<Rightarrow> state \<Rightarrow> state" where
  "send_to_azure_logs x log_type s =
     (if \<not> truthy (azure_log_workspace_id s) \<or> \<not> truthy (azure_log_shared_key s) then s
      else case azure_post x log_type of
             None \<Rightarrow> logger_info
                       (''Successfully sent logs to Azure Log Analytics: '' @ log_type) s
           | Some e \<Rightarrow> logger_error
                       (''Failed to send logs to Azure Log Analytics: '' @ exn_str e) s)"

text \<open>\<^verbatim>\<open>handle_error\<close>: logs, forwards to Azure and returns the text for the user.\<close>

definition handle_error :: "externals \<Rightarrow> exn \<Rightarrow> string \<Rightarrow> state \<Rightarrow> string \<times> state" where
  "handle_error x error context s =
     (let error_id = utc_now x;
          s1 = logger_error (''Error in '' @ context @ '': '' @ exn_str error) s;
          s2 = send_to_azure_logs x ''DatabricksApp_Error'' s1
      in (''Error ('' @ error_id @ ''): '' @ exn_str error, s2))"

section \<open>Credential resolution\<close>

text \<open>
  \<^verbatim>\<open>setup_databricks_client\<close>, run once at start-up. The global is assigned as
  soon as the constructor returns; any exception afterwards resets it to
  \<^verbatim>\<open>None\<close>.
\<close>

definition setup_databricks_client :: "externals \<Rightarrow> state \<Rightarrow> state" where
  "setup_databricks_client x s0 =
     (let handler = (\<lambda>e s.
            send_to_azure_logs x ''DatabricksApp_Warning''
              ((logger_info
                  ''For local development: run 'databricks auth login' if you need CLI authentication''
                  (logger_info ''App will use per-request user authorization instead''
                     (logger_warning
                        (''Could not establish app service principal connection: '' @ exn_str e)
                        s)))
               \<lparr>databricks_client := Some None\<rparr>))
      in case new_WorkspaceClient x None None s0 of
           (Inl e, s1) \<Rightarrow> handler e s1
         | (Inr c, s1) \<Rightarrow>
             (let s2 = s1\<lparr>databricks_client := Some (Some c)\<rparr>
              in case current_user_me x c of
                   Inl e \<Rightarrow> handler e s2
                 | Inr user_name \<Rightarrow>
                     send_to_azure_logs x ''DatabricksApp_Connection''
                       (logger_info
                          (''App service principal connected to Databricks as: '' @ user_name)
                          s2)))"

text \<open>\<^verbatim>\<open>get_databricks_client\<close>: reading an unbound global raises \<^verbatim>\<open>NameError\<close>.\<close>

definition get_databricks_client :: "state \<Rightarrow> exn + client option" where
  "get_databricks_client s =
     (case databricks_client s of
        None \<Rightarrow> Inl (Exn ''NameError'' ''name 'databricks_client' is not defined'')
      | Some c \<Rightarrow> Inr c)"

text \<open>
  \<^verbatim>\<open>get_user_access_token\<close>. Outside a request the proxy raises a
  \<^verbatim>\<open>RuntimeError\<close> whose text contains "outside of request context", and the
  handler returns \<^verbatim>\<open>None\<close> without logging.
\<close>

definition get_user_access_token :: "request_context \<Rightarrow> state \<Rightarrow> string option \<times> state" where
  "get_user_access_token req s =
     (case req of
        OutsideRequestContext \<Rightarrow> (None, s)
      | Request hs \<Rightarrow>
          (let user_token = hs ''x-forwarded-access-token''
           in if \<not> truthy user_token then (None, s)
              else (user_token,
                    logger_info ''Successfully retrieved user access token from request headers'' s)))"

text \<open>
  \<^verbatim>\<open>get_user_authorized_client\<close>. The \<^verbatim>\<open>finally\<close> blocks run on both
  exits of the inner \<^verbatim>\<open>try\<close>; an exception of the constructor reaches the
  outer handler, which logs it and returns \<^verbatim>\<open>None\<close>.
\<close>

definition get_user_authorized_client ::
  "externals \<Rightarrow> request_context \<Rightarrow> state \<Rightarrow> client option \<times> state" where
  "get_user_authorized_client x req s0 =
     (let (user_token, s1) = get_user_access_token req s0;
          is_databricks_app = (os_getenv ''DATABRICKS_APP_NAME'' s1 \<noteq> None)
      in if truthy user_token \<and> is_databricks_app then
           (let s2 = logger_info
                       ''Using user authorization token from x-forwarded-access-token header'' s1;
                host = os_getenv ''DATABRICKS_HOST'' s2
            in if \<not> truthy host then
                 (None, logger_error ''DATABRICKS_HOST environment variable not found'' s2)
               else
                 (let original_client_id = environ s2 ''DATABRICKS_CLIENT_ID'';
                      original_client_secret = environ s2 ''DATABRICKS_CLIENT_SECRET'';
                      s3 = del_environ ''DATABRICKS_CLIENT_SECRET''
                             (del_environ ''DATABRICKS_CLIENT_ID'' s2);
                      restore = (\<lambda>s. restore_environ ''DATABRICKS_CLIENT_SECRET''
                                        original_client_secret
                                        (restore_environ ''DATABRICKS_CLIENT_ID''
                                           original_client_id s))
                  in case new_WorkspaceClient x host user_token s3 of
                       (Inr user_client, s4) \<Rightarrow>
                         (Some user_client,
                          restore (logger_info
                                     ''Successfully created user-authorized Databricks client'' s4))
                     | (Inl e, s4) \<Rightarrow>
                         (None,
                          logger_error (''Failed to create Databricks client: '' @ exn_str e)
                            (restore s4))))
         else if \<not> is_databricks_app then
           (let s2 = logger_info
                       ''Local development detected, falling back to CLI authentication'' s1;
                original_host = environ s2 ''DATABRICKS_HOST'';
                original_client_id = environ s2 ''DATABRICKS_CLIENT_ID'';
                original_client_secret = environ s2 ''DATABRICKS_CLIENT_SECRET'';
                s3 = del_environ ''DATABRICKS_CLIENT_SECRET''
                       (del_environ ''DATABRICKS_CLIENT_ID''
                          (del_environ ''DATABRICKS_HOST'' s2));
                restore = (\<lambda>s. restore_environ ''DATABRICKS_CLIENT_SECRET''
                                  original_client_secret
                                  (restore_environ ''DATABRICKS_CLIENT_ID'' original_client_id
                                     (restore_environ ''DATABRICKS_HOST'' original_host s)))
            in case new_WorkspaceClient x None None s3 of
                 (Inr cli_client, s4) \<Rightarrow>
                   (Some cli_client,
                    restore (logger_info
                               ''Successfully created CLI-authenticated Databricks client'' s4))
               | (Inl e, s4) \<Rightarrow>
                   (None,
                    logger_error (''Failed to create Databricks client: '' @ exn_str e)
                      (restore s4)))
         else
           (None,
            logger_error
              ''Ensure user authorization is enabled for this app and the user has granted consent''
              (logger_error
                 ''Running in Databricks Apps environment but no user access token found'' s1)))"

text \<open>
  The text of the \<^verbatim>\<open>ValueError\<close> a caller raises when
  \<^verbatim>\<open>get_user_authorized_client\<close> returned \<^verbatim>\<open>None\<close> (lines 369--372 and
  500--503).
\<close>

definition unable_to_authenticate :: "state \<Rightarrow> exn" where
  "unable_to_authenticate s =
     (if truthy (os_getenv ''DATABRICKS_APP_NAME'' s) then
        Exn ''ValueError''
          (''Unable to authenticate with Databricks. Ensure user authorization is enabled ''
           @ ''for this app and the user has granted consent.'')
      else
        Exn ''ValueError''
          (''Unable to authenticate with Databricks. Please run 'databricks auth login' ''
           @ ''for local development.''))"

text \<open>
  The client for job submission (\<^verbatim>\<open>submit_databricks_job\<close>, lines 441--452):
  the client of the application's service principal, outside the hosted application a
  client from the CLI credentials, otherwise a \<^verbatim>\<open>ValueError\<close>.
\<close>

definition job_submission_client :: "externals \<Rightarrow> state \<Rightarrow> (exn + client) \<times> state" where
  "job_submission_client x s =
     (case get_databricks_client s of
        Inl e \<Rightarrow> (Inl e, s)
      | Inr (Some client) \<Rightarrow> (Inr client, s)
      | Inr None \<Rightarrow>
          if \<not> truthy (os_getenv ''DATABRICKS_APP_NAME'' s) then
            (let s1 = logger_info
                        ''Using CLI authentication for job submission (local development)'' s
             in case new_WorkspaceClient x None None s1 of
                  (Inr client, s2) \<Rightarrow> (Inr client, s2)
                | (Inl cli_error, s2) \<Rightarrow>
                    (Inl (Exn ''ValueError''
                            (''Unable to authenticate with Databricks. Please run 'databricks auth login' ''
                             @ ''for local development.'')), s2))
          else
            (Inl (Exn ''ValueError''
                    (''App service principal not available for job submission. ''
                     @ ''Check app configuration.'')), s))"

section \<open>Validation models\<close>

record sql_query_request =
  sql_query_template :: string
  sql_parameters :: "(string \<times> pyval) list"
  sql_warehouse_id :: "string option"

record job_submission_request =
  job_id :: int
  job_parameters :: "(string \<times> string) list"

text \<open>\<^verbatim>\<open>SQLQueryRequest.validate_query_template\<close>; \<open>Inl\<close> is the \<^verbatim>\<open>ValueError\<close>.\<close>

definition validate_query_template ::
  "externals \<Rightarrow> string \<Rightarrow> state \<Rightarrow> (string + string) \<times> state" where
  "validate_query_template x v s =
     (if v = [] \<or> str_strip x v = [] then (Inl ''Query template cannot be empty'', s)
      else (Inr (str_strip x v),
            if \<not> py_in ''${'' v \<and> \<not> py_in ''{{'' v \<and> \<not> py_in '':'' v
            then logger_warning
                   ''Query template should use parameters to prevent SQL injection'' s
            else s))"

text \<open>\<^verbatim>\<open>JobSubmissionRequest.validate_job_id\<close>.\<close>

definition validate_job_id :: "int \<Rightarrow> string + int" where
  "validate_job_id v = (if v \<le> 0 then Inl ''Job ID must be positive'' else Inr v)"

text \<open>
  The type checks pydantic makes for \<^verbatim>\<open>Dict[str, Any]\<close> and
  \<^verbatim>\<open>Dict[str, str]\<close>: the errors found and the items that passed.
\<close>

fun str_any_items :: "(pyval \<times> pyval) list \<Rightarrow> string list \<times> (string \<times> pyval) list" where
  "str_any_items [] = ([], [])"
| "str_any_items ((k, v) # kvs) =
     (let (es, items) = str_any_items kvs
      in case k of PStr a \<Rightarrow> (es, (a, v) # items)
         | _ \<Rightarrow> (''Input should be a valid string'' # es, items))"

fun str_str_items :: "(pyval \<times> pyval) list \<Rightarrow> string list \<times> (string \<times> string) list" where
  "str_str_items [] = ([], [])"
| "str_str_items ((k, v) # kvs) =
     (let (es, items) = str_str_items kvs
      in case (k, v) of
           (PStr a, PStr b) \<Rightarrow> (es, (a, b) # items)
         | _ \<Rightarrow> (''Input should be a valid string'' # es, items))"

definition dict_str_any :: "pyval \<Rightarrow> string list + (string \<times> pyval) list" where
  "dict_str_any v =
     (case v of
        PDict kvs \<Rightarrow> (let (es, items) = str_any_items kvs
                      in if es = [] then Inr items else Inl es)
      | _ \<Rightarrow> Inl [''Input should be a valid dictionary''])"

definition dict_str_str :: "pyval \<Rightarrow> string list + (string \<times> string) list" where
  "dict_str_str v =
     (case v of
        PDict kvs \<Rightarrow> (let (es, items) = str_str_items kvs
                      in if es = [] then Inr items else Inl es)
      | _ \<Rightarrow> Inl [''Input should be a valid dictionary''])"

text \<open>
  Constructing the two models: every field is checked, and a
  \<^verbatim>\<open>ValidationError\<close> is raised if any check failed.
\<close>

definition SQLQueryRequest ::
  "externals \<Rightarrow> string \<Rightarrow> pyval \<Rightarrow> string option \<Rightarrow> state
     \<Rightarrow> (exn + sql_query_request) \<times> state" where
  "SQLQueryRequest x query_template parameters warehouse_id s =
     (let (qt, s1) = validate_query_template x query_template s;
          ps = dict_str_any parameters;
          errors = (case qt of Inl m \<Rightarrow> [''Value error, '' @ m] | Inr _ \<Rightarrow> [])
                   @ (case ps of Inl es \<Rightarrow> es | Inr _ \<Rightarrow> [])
      in case (qt, ps) of
           (Inr q, Inr p) \<Rightarrow>
             (Inr \<lparr>sql_query_template = q, sql_parameters = p,
                   sql_warehouse_id = warehouse_id\<rparr>, s1)
         | _ \<Rightarrow> (Inl (Exn ''ValidationError''
                        (validation_error_str x ''SQLQueryRequest'' errors)), s1))"

definition JobSubmissionRequest ::
  "externals \<Rightarrow> int \<Rightarrow> pyval \<Rightarrow> exn + job_submission_request" where
  "JobSubmissionRequest x jid parameters =
     (let j = validate_job_id jid;
          ps = dict_str_str parameters;
          errors = (case j of Inl m \<Rightarrow> [''Value error, '' @ m] | Inr _ \<Rightarrow> [])
                   @ (case ps of Inl es \<Rightarrow> es | Inr _ \<Rightarrow> [])
      in case (j, ps) of
           (Inr i, Inr p) \<Rightarrow> Inr \<lparr>job_id = i, job_parameters = p\<rparr>
         | _ \<Rightarrow> Inl (Exn ''ValidationError''
                       (validation_error_str x ''JobSubmissionRequest'' errors)))"

section \<open>SQL queries\<close>

text \<open>
  \<^verbatim>\<open>pd.DataFrame(data_array)\<close> of a list of rows has one row per list and
  the columns \<open>0, \<dots>, n - 1\<close> for the longest row's length \<open>n\<close>; a cell that is
  \<^verbatim>\<open>None\<close> or lies beyond the end of its row is missing.
  \<^verbatim>\<open>to_dict('records')\<close> zips the columns: with at least one column it gives one
  dictionary per row, with no column at all it gives no record, however many rows there
  are.
\<close>

definition DataFrame_columns :: "string option list list \<Rightarrow> nat list" where
  "DataFrame_columns rows = [0 ..< foldr (\<lambda>r n. max (length r) n) rows 0]"

definition to_dict_records :: "externals \<Rightarrow> string option list list \<Rightarrow> pyval list" where
  "to_dict_records x rows =
     (if DataFrame_columns rows = [] then []
      else map (\<lambda>r. PDict (map (\<lambda>i. (PInt (int i),
                                     if i < length r
                                     then (case r ! i of
                                             None \<Rightarrow> pandas_na x rows i
                                           | Some v \<Rightarrow> PStr v)
                                     else pandas_na x rows i))
                          (DataFrame_columns rows)))
              rows)"

definition opt_str :: "string option \<Rightarrow> pyval" where
  "opt_str v = (case v of None \<Rightarrow> PNone | Some s \<Rightarrow> PStr s)"

text \<open>The result dictionary of a statement response (lines 400--418).\<close>

definition format_results :: "externals \<Rightarrow> statement_response \<Rightarrow> result_dict" where
  "format_results x r =
     (let no_rows = [(''success'', PBool True),
                     (''statement_id'', opt_str (statement_id r)),
                     (''data'', PList []),
                     (''columns'', PList []),
                     (''row_count'', PInt 0)]
      in case result r of
           None \<Rightarrow> no_rows
         | Some rd \<Rightarrow>
             (case data_array rd of
                None \<Rightarrow> no_rows
              | Some rows \<Rightarrow>
                  if rows = [] then no_rows
                  else [(''success'', PBool True),
                        (''statement_id'', opt_str (statement_id r)),
                        (''data'', PList (to_dict_records x rows)),
                        (''columns'',
                         PList (map (\<lambda>i. PDict [(PStr ''name'', PStr (str_nat i)),
                                                  (PStr ''id'', PStr (str_nat i))])
                                  (DataFrame_columns rows))),
                        (''row_count'', PInt (int (length rows)))]))"

text \<open>The body of the \<^verbatim>\<open>try\<close> of \<^verbatim>\<open>execute_sql_query\<close>.\<close>

definition execute_sql_query_try ::
  "externals \<Rightarrow> request_context \<Rightarrow> string \<Rightarrow> string \<Rightarrow> string option \<Rightarrow> state
     \<Rightarrow> (exn + result_dict) \<times> state" where
  "execute_sql_query_try x req query_template parameters_json warehouse_id s0 =
     (case (if parameters_json \<noteq> [] then json_loads x parameters_json else Inr (PDict [])) of
        Inl e \<Rightarrow> (Inl e, s0)
      | Inr parameters \<Rightarrow>
     (case SQLQueryRequest x query_template parameters
             (if truthy warehouse_id then warehouse_id else None) s0 of
        (Inl e, s1) \<Rightarrow> (Inl e, s1)
      | (Inr query_request, s1) \<Rightarrow>
     (case (if truthy (sql_warehouse_id query_request) then sql_warehouse_id query_request
            else os_getenv ''SQL_WAREHOUSE_ID'' s1) of
        None \<Rightarrow> (Inl (Exn ''ValueError'' ''SQL warehouse ID is required''), s1)
      | Some wid \<Rightarrow>
          if wid = [] then (Inl (Exn ''ValueError'' ''SQL warehouse ID is required''), s1)
          else
     (case get_user_authorized_client x req s1 of
        (None, s2) \<Rightarrow> (Inl (unable_to_authenticate s2), s2)
      | (Some user_client, s2) \<Rightarrow>
          (let query_parameters =
                 map (\<lambda>(key, value). (key, py_str x value)) (sql_parameters query_request);
               s3 = logger_info
                      (''Executing SQL query with user authorization and ''
                       @ str_nat (length query_parameters) @ '' parameters'') s2
           in case execute_statement x user_client wid (sql_query_template query_request)
                     query_parameters of
                Inl e \<Rightarrow> (Inl e, s3)
              | Inr r \<Rightarrow>
                  (Inr (format_results x r),
                   send_to_azure_logs x ''DatabricksApp_SQLQuery'' s3))))))"

text \<open>\<^verbatim>\<open>execute_sql_query\<close>: the handler turns every exception into a result.\<close>

definition execute_sql_query ::
  "externals \<Rightarrow> request_context \<Rightarrow> string \<Rightarrow> string \<Rightarrow> string option \<Rightarrow> state
     \<Rightarrow> result_dict \<times> state" where
  "execute_sql_query x req query_template parameters_json warehouse_id s =
     (case execute_sql_query_try x req query_template parameters_json warehouse_id s of
        (Inr d, s1) \<Rightarrow> (d, s1)
      | (Inl e, s1) \<Rightarrow>
          (let (error_msg, s2) = handle_error x e ''execute_sql_query'' s1
           in ([(''success'', PBool False), (''error'', PStr error_msg)], s2)))"

section \<open>Job submission\<close>

definition submit_databricks_job_try ::
  "externals \<Rightarrow> int \<Rightarrow> string \<Rightarrow> state \<Rightarrow> (exn + result_dict) \<times> state" where
  "submit_databricks_job_try x jid parameters_json s0 =
     (case (if parameters_json \<noteq> [] then json_loads x parameters_json else Inr (PDict [])) of
        Inl e \<Rightarrow> (Inl e, s0)
      | Inr parameters \<Rightarrow>
     (case JobSubmissionRequest x jid parameters of
        Inl e \<Rightarrow> (Inl e, s0)
      | Inr job_request \<Rightarrow>
     (case job_submission_client x s0 of
        (Inl e, s1) \<Rightarrow> (Inl e, s1)
      | (Inr client, s1) \<Rightarrow>
          (let auth_method = (if truthy (os_getenv ''DATABRICKS_APP_NAME'' s1)
                              then ''app_service_principal'' else ''cli_authentication'');
               parameters_dict =
                 PDict (map (\<lambda>(key, value). (PStr key, PStr value)) (job_parameters job_request));
               s2 = logger_info
                      (''Submitting job '' @ str_int (job_id job_request) @ '' with ''
                       @ auth_method @ '' and parameters: '' @ py_repr x parameters_dict) s1
           in case run_now x client (job_id job_request) (job_parameters job_request) of
                Inl e \<Rightarrow> (Inl e, s2)
              | Inr run_response \<Rightarrow>
                  (Inr [(''success'', PBool True),
                        (''job_id'', PInt (job_id job_request)),
                        (''run_id'', (case run_id run_response of
                                        None \<Rightarrow> PNone | Some i \<Rightarrow> PInt i)),
                        (''parameters'', parameters_dict),
                        (''timestamp'', PStr (utc_now x)),
                        (''auth_method'', PStr auth_method)],
                   send_to_azure_logs x ''DatabricksApp_JobSubmission'' s2)))))"

definition submit_databricks_job ::
  "externals \<Rightarrow> int \<Rightarrow> string \<Rightarrow> state \<Rightarrow> result_dict \<times> state" where
  "submit_databricks_job x jid parameters_json s =
     (case submit_databricks_job_try x jid parameters_json s of
        (Inr d, s1) \<Rightarrow> (d, s1)
      | (Inl e, s1) \<Rightarrow>
          (let (error_msg, s2) = handle_error x e ''submit_job'' s1
           in ([(''success'', PBool False), (''error'', PStr error_msg)], s2)))"

section \<open>Model serving\<close>

text \<open>The loop over \<^verbatim>\<open>inputs["messages"]\<close> (lines 512--516).\<close>

fun chat_messages :: "pyval list \<Rightarrow> exn + chat_message list" where
  "chat_messages [] = Inr []"
| "chat_messages (msg # msgs) =
     (case py_get msg ''role'' (PStr ''user'') of
        Inl e \<Rightarrow> Inl e
      | Inr r \<Rightarrow>
     (case py_get msg ''content'' (PStr []) of
        Inl e \<Rightarrow> Inl e
      | Inr c \<Rightarrow>
     (case chat_messages msgs of
        Inl e \<Rightarrow> Inl e
      | Inr ms \<Rightarrow>
          Inr (\<lparr>role = (if r = PStr ''user'' then USER else SYSTEM), content = c\<rparr> # ms))))"

text \<open>The messages sent to the endpoint (lines 507--533).\<close>

definition build_messages :: "pyval \<Rightarrow> exn + chat_message list" where
  "build_messages inputs =
     (case py_get inputs ''messages'' PNone of
        Inl e \<Rightarrow> Inl e
      | Inr m \<Rightarrow>
          if py_bool m then
            (case py_iter m of Inl e \<Rightarrow> Inl e | Inr msgs \<Rightarrow> chat_messages msgs)
          else
     (case py_get inputs ''prompt'' PNone of
        Inl e \<Rightarrow> Inl e
      | Inr p \<Rightarrow>
     (case (if py_bool p then Inr p else py_get inputs ''content'' PNone) of
        Inl e \<Rightarrow> Inl e
      | Inr prompt_or_content \<Rightarrow>
          if py_bool prompt_or_content then
            (case (if py_bool p then Inr p else py_get inputs ''content'' (PStr [])) of
               Inl e \<Rightarrow> Inl e
             | Inr c \<Rightarrow> Inr [\<lparr>role = USER, content = c\<rparr>])
          else Inr [\<lparr>role = USER, content = PStr ''Hello, can you help me?''\<rparr>])))"

definition call_model_serving_endpoint_try ::
  "externals \<Rightarrow> request_context \<Rightarrow> string \<Rightarrow> string \<Rightarrow> state
     \<Rightarrow> (exn + result_dict) \<times> state" where
  "call_model_serving_endpoint_try x req endpoint_name inputs_json s0 =
     (case (if inputs_json \<noteq> [] then json_loads x inputs_json else Inr (PDict [])) of
        Inl e \<Rightarrow> (Inl e, s0)
      | Inr inputs \<Rightarrow>
     (case get_user_authorized_client x req s0 of
        (None, s1) \<Rightarrow> (Inl (unable_to_authenticate s1), s1)
      | (Some user_client, s1) \<Rightarrow>
          (let s2 = logger_info
                      (''Calling model serving endpoint with user authorization: ''
                       @ endpoint_name) s1
           in case build_messages inputs of
                Inl e \<Rightarrow> (Inl e, s2)
              | Inr messages \<Rightarrow>
                  (case serving_query x user_client endpoint_name messages of
                     Inl e \<Rightarrow> (Inl e, s2)
                   | Inr response \<Rightarrow>
                       (Inr [(''success'', PBool True),
                             (''endpoint_name'', PStr endpoint_name),
                             (''timestamp'', PStr (utc_now x)),
                             (''result'', response)],
                        send_to_azure_logs x ''DatabricksApp_ModelServing'' s2)))))"

definition call_model_serving_endpoint ::
  "externals \<Rightarrow> request_context \<Rightarrow> string \<Rightarrow> string \<Rightarrow> state \<Rightarrow> result_dict \<times> state" where
  "call_model_serving_endpoint x req endpoint_name inputs_json s =
     (case call_model_serving_endpoint_try x req endpoint_name inputs_json s of
        (Inr d, s1) \<Rightarrow> (d, s1)
      | (Inl e, s1) \<Rightarrow>
          (let (error_msg, s2) = handle_error x e ''call_model_serving'' s1
           in ([(''success'', PBool False), (''error'', PStr error_msg)], s2)))"

section \<open>Concrete inputs\<close>

text \<open>
  Inputs on which the theorems below are instantiated. Worlds: one in which every
  external call succeeds, one without CLI credentials (the argument-less constructor
  raises), one whose JSON parser rejects its input, one whose statements return no rows,
  one whose statements return a row without columns.
  Process states: a hosted and a local one, a local one whose client id is the empty
  string, one whose application name is the empty string, the hosted one after start-up,
  and a hosted one without a host. Requests: one with a forwarded token; the one without
  is \<open>OutsideRequestContext\<close>.
\<close>

text \<open>A \<^verbatim>\<open>strip\<close> for ASCII text, where it agrees with Python's.\<close>

definition ascii_isspace :: "char \<Rightarrow> bool" where
  "ascii_isspace c = (c \<in> set [CHR '' '', CHR 0x09, CHR 0x0A, CHR 0x0B, CHR 0x0C, CHR 0x0D,
                                CHR 0x1C, CHR 0x1D, CHR 0x1E, CHR 0x1F])"

definition ascii_strip :: "string \<Rightarrow> string" where
  "ascii_strip s = rev (dropWhile ascii_isspace (rev (dropWhile ascii_isspace s)))"

definition world_ok :: externals where
  "world_ok =
     \<lparr>workspace_client_init = (\<lambda>h t e. None),
      current_user_me = (\<lambda>c. Inr ''sp@example.net''),
      execute_statement = (\<lambda>c w q ps.
         Inr \<lparr>statement_id = Some ''01ef'',
              result = Some \<lparr>data_array = Some [[Some ''a'', Some ''b''], [Some ''c'']]\<rparr>\<rparr>),
      run_now = (\<lambda>c j ps. Inr \<lparr>run_id = Some 7\<rparr>),
      serving_query = (\<lambda>c n ms. Inr (PDict [(PStr ''choices'', PList [])])),
      json_loads = (\<lambda>s. Inr (PDict [])),
      py_repr = (\<lambda>v. ''{}''),
      str_strip = ascii_strip,
      pandas_na = (\<lambda>rows i. PNone),
      validation_error_str = (\<lambda>m es. ''validation error for '' @ m),
      azure_post = (\<lambda>t. None),
      utc_now = ''2025-01-01T00:00:00+00:00''\<rparr>"

definition world_no_cli :: externals where
  "world_no_cli = world_ok\<lparr>workspace_client_init :=
     (\<lambda>h t e. if t = None
                then Some (Exn ''ValueError'' ''default auth: cannot configure default credentials'')
                else None)\<rparr>"

definition world_bad_json :: externals where
  "world_bad_json = world_ok\<lparr>json_loads :=
     (\<lambda>s. Inl (Exn ''JSONDecodeError'' ''Expecting value: line 1 column 1 (char 0)''))\<rparr>"

definition world_no_rows :: externals where
  "world_no_rows = world_ok\<lparr>execute_statement :=
     (\<lambda>c w q ps. Inr \<lparr>statement_id = Some ''01ef'', result = None\<rparr>)\<rparr>"

definition world_zero_columns :: externals where
  "world_zero_columns = world_ok\<lparr>execute_statement :=
     (\<lambda>c w q ps. Inr \<lparr>statement_id = Some ''01ef'',
                       result = Some \<lparr>data_array = Some [[]]\<rparr>\<rparr>)\<rparr>"

definition hosted_state :: state where
  "hosted_state =
     \<lparr>environ = [''DATABRICKS_APP_NAME'' \<mapsto> ''example-app'',
                 ''DATABRICKS_HOST'' \<mapsto> ''https://adb.example.net'',
                 ''DATABRICKS_CLIENT_ID'' \<mapsto> ''sp-id'',
                 ''DATABRICKS_CLIENT_SECRET'' \<mapsto> ''sp-secret''],
      logged = [], databricks_client = Some None,
      azure_log_workspace_id = None, azure_log_shared_key = None, allocated = 0\<rparr>"

definition local_state :: state where
  "local_state =
     \<lparr>environ = [''DATABRICKS_HOST'' \<mapsto> ''https://adb.example.net'',
                 ''DATABRICKS_CLIENT_ID'' \<mapsto> ''sp-id'',
                 ''DATABRICKS_CLIENT_SECRET'' \<mapsto> ''sp-secret''],
      logged = [], databricks_client = Some None,
      azure_log_workspace_id = None, azure_log_shared_key = None, allocated = 0\<rparr>"

definition token_request :: request_context where
  "token_request = Request [''x-forwarded-access-token'' \<mapsto> ''user-token'']"

definition empty_id_state :: state where
  "empty_id_state = local_state\<lparr>environ := [''DATABRICKS_CLIENT_ID'' \<mapsto> '''']\<rparr>"

definition empty_marker_state :: state where
  "empty_marker_state = local_state\<lparr>environ := [''DATABRICKS_APP_NAME'' \<mapsto> '''']\<rparr>"

definition sp_state :: state where
  "sp_state = setup_databricks_client world_ok hosted_state"

definition no_host_state :: state where
  "no_host_state = hosted_state\<lparr>environ := [''DATABRICKS_APP_NAME'' \<mapsto> ''example-app'']\<rparr>"

section \<open>Properties of credential resolution\<close>

subsection \<open>Frame lemmas of the primitive operations\<close>

lemma environ_del_environ [simp]: "environ (del_environ k s) = (environ s)(k := None)"
  by (auto simp: del_environ_def)

lemma allocated_del_environ [simp]: "allocated (del_environ k s) = allocated s"
  by (simp add: del_environ_def)

lemma logged_del_environ [simp]: "logged (del_environ k s) = logged s"
  by (simp add: del_environ_def)

lemma databricks_client_del_environ [simp]:
  "databricks_client (del_environ k s) = databricks_client s"
  by (simp add: del_environ_def)

lemma restore_environ_fields [simp]:
  "allocated (restore_environ k v s) = allocated s"
  "logged (restore_environ k v s) = logged s"
  "databricks_client (restore_environ k v s) = databricks_client s"
  by (simp_all add: restore_environ_def split: option.splits)

lemma environ_restore_environ:
  "environ (restore_environ k v s) = (if truthy v then (environ s)(k := v) else environ s)"
  by (auto simp: restore_environ_def truthy_def split: option.splits)

lemma logger_fields [simp]:
  "environ (logger_info m s) = environ s"
  "allocated (logger_info m s) = allocated s"
  "databricks_client (logger_info m s) = databricks_client s"
  "logged (logger_info m s) = logged s @ [(INFO, m)]"
  "environ (logger_error m s) = environ s"
  "allocated (logger_error m s) = allocated s"
  "databricks_client (logger_error m s) = databricks_client s"
  "logged (logger_error m s) = logged s @ [(ERROR, m)]"
  "environ (logger_warning m s) = environ s"
  "allocated (logger_warning m s) = allocated s"
  "databricks_client (logger_warning m s) = databricks_client s"
  "logged (logger_warning m s) = logged s @ [(WARNING, m)]"
  by (simp_all add: logger_info_def logger_error_def logger_warning_def)

lemma get_user_access_token_fst:
  "fst (get_user_access_token req s) =
     (case req of OutsideRequestContext \<Rightarrow> None
      | Request hs \<Rightarrow> if truthy (hs ''x-forwarded-access-token'')
                      then hs ''x-forwarded-access-token'' else None)"
  by (simp add: get_user_access_token_def Let_def split: request_context.splits)

lemma get_user_access_token_frame [simp]:
  "environ (snd (get_user_access_token req s)) = environ s"
  "allocated (snd (get_user_access_token req s)) = allocated s"
  "databricks_client (snd (get_user_access_token req s)) = databricks_client s"
  by (simp_all add: get_user_access_token_def Let_def split: request_context.splits)

lemma get_user_access_token_none:
  "fst (get_user_access_token req s) = None \<Longrightarrow> snd (get_user_access_token req s) = s"
  by (simp add: get_user_access_token_def Let_def truthy_def
      split: request_context.splits if_splits option.splits)

text \<open>
  C1. When the request carries a forwarded user token (the header is there and is not
  empty, which is when \<^verbatim>\<open>get_user_access_token\<close> returns it), the variable
  \<^verbatim>\<open>DATABRICKS_APP_NAME\<close> is set and \<^verbatim>\<open>DATABRICKS_HOST\<close> holds a host,
  \<^verbatim>\<open>get_user_authorized_client\<close> returns what the constructor called with
  exactly that host and that token yields: the client object bound to them (constructed
  with the service-principal variables removed from the environment), or
  \<^verbatim>\<open>None\<close> should the SDK raise. When the host is absent (or the empty string)
  the call returns \<^verbatim>\<open>None\<close>.
\<close>

theorem hosted_token_client:
  assumes "req = Request hs" and "hs ''x-forwarded-access-token'' = Some tok" and "tok \<noteq> []"
    and "environ s ''DATABRICKS_APP_NAME'' = Some app"
  shows "(\<forall>h. environ s ''DATABRICKS_HOST'' = Some h \<and> h \<noteq> []
           \<longrightarrow> fst (get_user_authorized_client x req s) =
                 (case workspace_client_init x (Some h) (Some tok)
                         ((environ s)(''DATABRICKS_CLIENT_ID'' := None,
                                      ''DATABRICKS_CLIENT_SECRET'' := None)) of
                    None \<Rightarrow>
                      Some (WorkspaceClient (allocated s) (Some h) (Some tok)
                        ((environ s)(''DATABRICKS_CLIENT_ID'' := None,
                                     ''DATABRICKS_CLIENT_SECRET'' := None)))
                  | Some e \<Rightarrow> None))
       \<and> (\<not> truthy (environ s ''DATABRICKS_HOST'')
           \<longrightarrow> fst (get_user_authorized_client x req s) = None)"
  using assms
  by (auto simp: get_user_authorized_client_def get_user_access_token_def Let_def truthy_def
      os_getenv_def new_WorkspaceClient_def split: option.splits)

theorem hosted_token_client_witness:
  "fst (get_user_authorized_client world_ok token_request hosted_state) =
     Some (WorkspaceClient 0 (Some ''https://adb.example.net'') (Some ''user-token'')
       ((environ hosted_state)(''DATABRICKS_CLIENT_ID'' := None,
                                ''DATABRICKS_CLIENT_SECRET'' := None)))
   \<and> fst (get_user_authorized_client world_ok token_request
           (hosted_state\<lparr>environ := [''DATABRICKS_APP_NAME'' \<mapsto> ''example-app'']\<rparr>)) = None"
proof -
  have a: "token_request = Request [''x-forwarded-access-token'' \<mapsto> ''user-token'']"
    by (simp add: token_request_def)
  have b: "[''x-forwarded-access-token'' \<mapsto> ''user-token''] ''x-forwarded-access-token''
             = Some ''user-token''" by simp
  have c: "''user-token'' \<noteq> []" by simp
  have d: "environ hosted_state ''DATABRICKS_APP_NAME'' = Some ''example-app''"
    by (simp add: hosted_state_def)
  have d': "environ (hosted_state\<lparr>environ := [''DATABRICKS_APP_NAME'' \<mapsto> ''example-app'']\<rparr>)
              ''DATABRICKS_APP_NAME'' = Some ''example-app''"
    by simp
  have e: "environ hosted_state ''DATABRICKS_HOST'' = Some ''https://adb.example.net''"
    by (simp add: hosted_state_def)
  have f: "allocated hosted_state = 0" by (simp add: hosted_state_def)
  from hosted_token_client [OF a b c d, of world_ok] e f
  have 1: "fst (get_user_authorized_client world_ok token_request hosted_state) =
     Some (WorkspaceClient 0 (Some ''https://adb.example.net'') (Some ''user-token'')
       ((environ hosted_state)(''DATABRICKS_CLIENT_ID'' := None,
                                ''DATABRICKS_CLIENT_SECRET'' := None)))"
    by (simp add: world_ok_def)
  from hosted_token_client [OF a b c d', of world_ok]
  have 2: "fst (get_user_authorized_client world_ok token_request
           (hosted_state\<lparr>environ := [''DATABRICKS_APP_NAME'' \<mapsto> ''example-app'']\<rparr>)) = None"
    by (simp add: truthy_def)
  from 1 2 show ?thesis by simp
qed

text \<open>
  C2. When \<^verbatim>\<open>DATABRICKS_APP_NAME\<close> is set and no forwarded user token is present,
  the call returns \<^verbatim>\<open>None\<close> whatever the SDK would do: no constructor runs (no
  object is allocated), the service-principal client is not handed out, the environment
  is untouched, and the failure is made explicit by two error records in the log.
\<close>

theorem hosted_without_token_fails:
  assumes "environ s ''DATABRICKS_APP_NAME'' = Some app"
    and "fst (get_user_access_token req s) = None"
  shows "get_user_authorized_client x req s =
     (None,
      s\<lparr>logged := logged s @
         [(ERROR, ''Running in Databricks Apps environment but no user access token found''),
          (ERROR, ''Ensure user authorization is enabled for this app and the user has granted consent'')]\<rparr>)"
proof -
  from assms(2) have "get_user_access_token req s = (None, s)"
    using get_user_access_token_none [of req s] by (simp add: prod_eq_iff)
  with assms(1) show ?thesis
    by (simp add: get_user_authorized_client_def os_getenv_def truthy_def logger_error_def)
qed

theorem hosted_without_token_fails_witness:
  "get_user_authorized_client world_ok OutsideRequestContext hosted_state =
     (None,
      hosted_state\<lparr>logged :=
         [(ERROR, ''Running in Databricks Apps environment but no user access token found''),
          (ERROR, ''Ensure user authorization is enabled for this app and the user has granted consent'')]\<rparr>)"
proof -
  have a: "environ hosted_state ''DATABRICKS_APP_NAME'' = Some ''example-app''"
    by (simp add: hosted_state_def)
  have b: "fst (get_user_access_token OutsideRequestContext hosted_state) = None"
    by (simp add: get_user_access_token_def)
  have c: "logged hosted_state = []" by (simp add: hosted_state_def)
  from hosted_without_token_fails [OF a b, of world_ok] c show ?thesis by simp
qed

text \<open>
  C3. When \<^verbatim>\<open>DATABRICKS_APP_NAME\<close> is not set, whatever the request carries, the
  result is the outcome of the argument-less constructor \<^verbatim>\<open>WorkspaceClient()\<close>
  (CLI credentials), run in an environment from which \<^verbatim>\<open>DATABRICKS_HOST\<close>,
  \<^verbatim>\<open>DATABRICKS_CLIENT_ID\<close> and \<^verbatim>\<open>DATABRICKS_CLIENT_SECRET\<close> have been
  removed; a forwarded token is never passed to it.
\<close>

theorem local_development_uses_cli:
  assumes "environ s ''DATABRICKS_APP_NAME'' = None"
  shows "fst (get_user_authorized_client x req s) =
     (case workspace_client_init x None None
             ((environ s)(''DATABRICKS_HOST'' := None, ''DATABRICKS_CLIENT_ID'' := None,
                          ''DATABRICKS_CLIENT_SECRET'' := None)) of
        None \<Rightarrow> Some (WorkspaceClient (allocated s) None None
                  ((environ s)(''DATABRICKS_HOST'' := None, ''DATABRICKS_CLIENT_ID'' := None,
                               ''DATABRICKS_CLIENT_SECRET'' := None)))
      | Some e \<Rightarrow> None)"
proof -
  obtain t s1 where g: "get_user_access_token req s = (t, s1)" by (cases "get_user_access_token req s")
  have e1: "environ s1 = environ s" and a1: "allocated s1 = allocated s"
    using get_user_access_token_frame [of req s] g by simp_all
  show ?thesis using assms
    by (simp add: get_user_authorized_client_def g os_getenv_def e1 a1 Let_def
        new_WorkspaceClient_def split: option.splits)
qed

theorem local_development_uses_cli_witness:
  "fst (get_user_authorized_client world_ok token_request local_state) =
     Some (WorkspaceClient 0 None None
       ((environ local_state)(''DATABRICKS_HOST'' := None, ''DATABRICKS_CLIENT_ID'' := None,
                              ''DATABRICKS_CLIENT_SECRET'' := None)))
   \<and> fst (get_user_authorized_client world_no_cli token_request local_state) = None"
proof -
  have a: "environ local_state ''DATABRICKS_APP_NAME'' = None"
    by (simp add: local_state_def)
  have b: "allocated local_state = 0" by (simp add: local_state_def)
  from local_development_uses_cli [OF a, of world_ok token_request] b
  have 1: "fst (get_user_authorized_client world_ok token_request local_state) =
     Some (WorkspaceClient 0 None None
       ((environ local_state)(''DATABRICKS_HOST'' := None, ''DATABRICKS_CLIENT_ID'' := None,
                              ''DATABRICKS_CLIENT_SECRET'' := None)))"
    by (simp add: world_ok_def)
  from local_development_uses_cli [OF a, of world_no_cli token_request]
  have 2: "fst (get_user_authorized_client world_no_cli token_request local_state) = None"
    by (simp add: world_no_cli_def world_ok_def)
  from 1 2 show ?thesis by simp
qed

subsection \<open>Restoring the environment\<close>

lemma new_WorkspaceClient_frame:
  "environ (snd (new_WorkspaceClient x h t s)) = environ s"
  "logged (snd (new_WorkspaceClient x h t s)) = logged s"
  "databricks_client (snd (new_WorkspaceClient x h t s)) = databricks_client s"
  by (simp_all add: new_WorkspaceClient_def split: option.splits)

lemma environ_restore_environ_at:
  "environ (restore_environ k v s) k' = (if k' = k \<and> truthy v then v else environ s k')"
  by (auto simp: restore_environ_def truthy_def split: option.splits)

lemma environ_after_local_resolution:
  assumes "environ s ''DATABRICKS_APP_NAME'' = None"
  shows "environ (snd (get_user_authorized_client x req s)) k =
     (if environ s k = Some [] \<and>
         (k = ''DATABRICKS_CLIENT_ID'' \<or> k = ''DATABRICKS_CLIENT_SECRET'' \<or>
          k = ''DATABRICKS_HOST'')
      then None else environ s k)"
proof -
  obtain t s1 where g: "get_user_access_token req s = (t, s1)"
    by (cases "get_user_access_token req s")
  have e1: "environ s1 = environ s"
    using get_user_access_token_frame [of req s] g by simp
  show ?thesis
  proof (cases "workspace_client_init x None None
      ((environ s)(''DATABRICKS_HOST'' := None, ''DATABRICKS_CLIENT_ID'' := None,
                   ''DATABRICKS_CLIENT_SECRET'' := None))")
    case None
    then show ?thesis using assms
      by (simp add: get_user_authorized_client_def g os_getenv_def e1 Let_def
          new_WorkspaceClient_def environ_restore_environ_at truthy_def split: option.splits)
  next
    case (Some e)
    then show ?thesis using assms
      by (simp add: get_user_authorized_client_def g os_getenv_def e1 Let_def
          new_WorkspaceClient_def environ_restore_environ_at truthy_def split: option.splits)
  qed
qed

lemma environ_after_hosted_resolution:
  assumes "environ s ''DATABRICKS_APP_NAME'' = Some app"
  shows "environ (snd (get_user_authorized_client x req s)) k =
     (if environ s k = Some [] \<and>
         (k = ''DATABRICKS_CLIENT_ID'' \<or> k = ''DATABRICKS_CLIENT_SECRET'') \<and>
         truthy (fst (get_user_access_token req s)) \<and> truthy (environ s ''DATABRICKS_HOST'')
      then None else environ s k)"
proof -
  obtain t s1 where g: "get_user_access_token req s = (t, s1)"
    by (cases "get_user_access_token req s")
  have e1: "environ s1 = environ s"
    using get_user_access_token_frame [of req s] g by simp
  show ?thesis
  proof (cases "truthy t \<and> truthy (environ s ''DATABRICKS_HOST'')")
    case False
    then show ?thesis using assms
      by (auto simp: get_user_authorized_client_def g os_getenv_def e1 Let_def)
  next
    case True
    show ?thesis
    proof (cases "workspace_client_init x (environ s ''DATABRICKS_HOST'') t
        ((environ s)(''DATABRICKS_CLIENT_ID'' := None, ''DATABRICKS_CLIENT_SECRET'' := None))")
      case None
      with True show ?thesis using assms
        by (simp add: get_user_authorized_client_def g os_getenv_def e1 Let_def
            new_WorkspaceClient_def environ_restore_environ_at)
          (simp add: truthy_def split: option.splits)
    next
      case (Some e)
      with True show ?thesis using assms
        by (simp add: get_user_authorized_client_def g os_getenv_def e1 Let_def
            new_WorkspaceClient_def environ_restore_environ_at)
          (simp add: truthy_def split: option.splits)
    qed
  qed
qed

lemma environ_restored_when_nonempty:
  assumes "environ s ''DATABRICKS_HOST'' \<noteq> Some []"
    and "environ s ''DATABRICKS_CLIENT_ID'' \<noteq> Some []"
    and "environ s ''DATABRICKS_CLIENT_SECRET'' \<noteq> Some []"
  shows "environ (snd (get_user_authorized_client x req s)) = environ s"
proof
  fix k
  show "environ (snd (get_user_authorized_client x req s)) k = environ s k"
  proof (cases "environ s ''DATABRICKS_APP_NAME''")
    case None
    with assms show ?thesis by (auto simp: environ_after_local_resolution)
  next
    case (Some app)
    with assms show ?thesis by (auto simp: environ_after_hosted_resolution)
  qed
qed

lemma environ_app_name_after_resolution:
  "environ (snd (get_user_authorized_client x req s)) ''DATABRICKS_APP_NAME'' =
     environ s ''DATABRICKS_APP_NAME''"
proof (cases "environ s ''DATABRICKS_APP_NAME''")
  case None
  then show ?thesis by (simp add: environ_after_local_resolution)
next
  case (Some app)
  then show ?thesis by (simp add: environ_after_hosted_resolution)
qed

text \<open>
  C4. The claim is that every key the function removes has the same presence and value
  after the call, also when the value is the empty string. The code restores a key only
  \<^verbatim>\<open>if original_client_id:\<close>, so a key whose value was \<^verbatim>\<open>""\<close> is removed
  and stays removed: here \<^verbatim>\<open>DATABRICKS_CLIENT_ID\<close> is present and empty before
  the call, and absent after it.
\<close>

theorem environ_not_restored_when_empty:
  "environ empty_id_state ''DATABRICKS_CLIENT_ID'' = Some []
   \<and> environ (snd (get_user_authorized_client world_ok OutsideRequestContext empty_id_state))
         ''DATABRICKS_CLIENT_ID'' = None"
  by (simp add: environ_after_local_resolution empty_id_state_def local_state_def)

section \<open>The client for job submission\<close>

lemma send_to_azure_logs_frame [simp]:
  "environ (send_to_azure_logs x ty s) = environ s"
  "databricks_client (send_to_azure_logs x ty s) = databricks_client s"
  "allocated (send_to_azure_logs x ty s) = allocated s"
  by (simp_all add: send_to_azure_logs_def split: option.splits)

lemma handle_error_frame [simp]:
  "environ (snd (handle_error x e ctx s)) = environ s"
  "databricks_client (snd (handle_error x e ctx s)) = databricks_client s"
  "allocated (snd (handle_error x e ctx s)) = allocated s"
  by (simp_all add: handle_error_def Let_def)

lemma job_submission_client_cached:
  "databricks_client s = Some (Some c) \<Longrightarrow> job_submission_client x s = (Inr c, s)"
  by (simp add: job_submission_client_def get_databricks_client_def)

lemma job_submission_client_global [simp]:
  "databricks_client (snd (job_submission_client x s)) = databricks_client s"
  by (simp add: job_submission_client_def get_databricks_client_def new_WorkspaceClient_def
      Let_def split: option.splits)

lemma submit_databricks_job_try_global [simp]:
  "databricks_client (snd (submit_databricks_job_try x jid pj s)) = databricks_client s"
proof (cases "if pj \<noteq> [] then json_loads x pj else Inr (PDict [])")
  case (Inl e)
  then show ?thesis by (simp add: submit_databricks_job_try_def)
next
  case (Inr ps)
  note p = this
  show ?thesis
  proof (cases "JobSubmissionRequest x jid ps")
    case (Inl e)
    with p show ?thesis by (simp add: submit_databricks_job_try_def)
  next
    case (Inr jr)
    note v = this
    obtain r s1 where j: "job_submission_client x s = (r, s1)"
      by (cases "job_submission_client x s")
    have d: "databricks_client s1 = databricks_client s"
      using job_submission_client_global [of x s] j by simp
    show ?thesis
    proof (cases r)
      case (Inl e)
      with p v j d show ?thesis by (simp add: submit_databricks_job_try_def)
    next
      case (Inr c)
      with p v j d show ?thesis
        by (cases "run_now x c (job_id jr) (job_parameters jr)")
           (simp_all add: submit_databricks_job_try_def Let_def)
    qed
  qed
qed

lemma submit_databricks_job_global [simp]:
  "databricks_client (snd (submit_databricks_job x jid pj s)) = databricks_client s"
  by (simp add: submit_databricks_job_def case_prod_beta split: sum.splits)

lemma sp_state_client:
  "databricks_client sp_state = Some (Some (WorkspaceClient 0 None None (environ hosted_state)))"
  by (simp add: sp_state_def setup_databricks_client_def new_WorkspaceClient_def world_ok_def
      hosted_state_def send_to_azure_logs_def truthy_def logger_info_def)

text \<open>
  What the code of job submission does: the client of the application's service principal
  is used whenever the start-up created one, and the request is not consulted at all (the
  function does not take it). Without one, the test is
  \<^verbatim>\<open>not os.getenv('DATABRICKS_APP_NAME')\<close>: the CLI credentials are used when it
  holds (their failure is reported as a \<^verbatim>\<open>ValueError\<close>), and the resolution fails
  with a \<^verbatim>\<open>ValueError\<close> when it does not.
\<close>

lemma job_submission_client_policy:
  "(\<forall>c. databricks_client s = Some (Some c) \<longrightarrow> job_submission_client x s = (Inr c, s))
   \<and> (databricks_client s = Some None \<and> \<not> truthy (environ s ''DATABRICKS_APP_NAME'') \<longrightarrow>
        fst (job_submission_client x s) =
          (case workspace_client_init x None None (environ s) of
             None \<Rightarrow> Inr (WorkspaceClient (allocated s) None None (environ s))
           | Some e \<Rightarrow>
               Inl (Exn ''ValueError''
                      (''Unable to authenticate with Databricks. Please run 'databricks auth login' ''
                       @ ''for local development.''))))
   \<and> (databricks_client s = Some None \<and> truthy (environ s ''DATABRICKS_APP_NAME'') \<longrightarrow>
        job_submission_client x s =
          (Inl (Exn ''ValueError''
                  (''App service principal not available for job submission. ''
                   @ ''Check app configuration.'')), s))"
  by (simp add: job_submission_client_def get_databricks_client_def os_getenv_def
      new_WorkspaceClient_def split: option.splits)

text \<open>
  C5. The hosted context is the presence of \<^verbatim>\<open>DATABRICKS_APP_NAME\<close>:
  \<^verbatim>\<open>get_user_authorized_client\<close> tests \<^verbatim>\<open>is not None\<close>, under the comment
  "Check if we're in a Databricks Apps environment". Job submission tests the truth value
  of the variable instead, so the two disagree when it is set to the empty string. In that
  environment, without a service-principal client, the user resolver takes the process for
  the hosted application and refuses, while job submission, which the claim says must
  fail there, constructs a client from the CLI credentials and submits the job as local
  development.
\<close>

theorem job_submission_client_empty_marker:
  "environ empty_marker_state ''DATABRICKS_APP_NAME'' = Some []
   \<and> databricks_client empty_marker_state = Some None
   \<and> fst (job_submission_client world_ok empty_marker_state) =
       Inr (WorkspaceClient 0 None None (environ empty_marker_state))
   \<and> map_of (fst (submit_databricks_job world_ok 5 ''{}'' empty_marker_state)) ''success''
       = Some (PBool True)
   \<and> map_of (fst (submit_databricks_job world_ok 5 ''{}'' empty_marker_state)) ''auth_method''
       = Some (PStr ''cli_authentication'')
   \<and> fst (get_user_authorized_client world_ok OutsideRequestContext empty_marker_state) = None"
proof -
  have a: "fst (job_submission_client world_ok empty_marker_state) =
       Inr (WorkspaceClient 0 None None (environ empty_marker_state))"
    by (simp add: job_submission_client_def get_databricks_client_def empty_marker_state_def
        local_state_def os_getenv_def truthy_def new_WorkspaceClient_def world_ok_def
        logger_info_def)
  obtain c s1 where j: "job_submission_client world_ok empty_marker_state = (Inr c, s1)"
    using a by (cases "job_submission_client world_ok empty_marker_state") simp
  have e: "environ s1 ''DATABRICKS_APP_NAME'' = Some []"
    using j
    by (auto simp: job_submission_client_def get_databricks_client_def empty_marker_state_def
        local_state_def os_getenv_def truthy_def new_WorkspaceClient_def world_ok_def
        logger_info_def)
  have v: "JobSubmissionRequest world_ok 5 (PDict []) = Inr \<lparr>job_id = 5, job_parameters = []\<rparr>"
    by (simp add: JobSubmissionRequest_def validate_job_id_def dict_str_str_def)
  have w: "json_loads world_ok ''{}'' = Inr (PDict [])" "run_now world_ok = (\<lambda>c j ps. Inr \<lparr>run_id = Some 7\<rparr>)"
    by (simp_all add: world_ok_def)
  have t: "\<exists>s2 ts pr. submit_databricks_job_try world_ok 5 ''{}'' empty_marker_state =
       (Inr [(''success'', PBool True), (''job_id'', PInt 5), (''run_id'', PInt 7),
             (''parameters'', pr), (''timestamp'', ts),
             (''auth_method'', PStr ''cli_authentication'')], s2)"
    by (simp add: submit_databricks_job_try_def w v j e os_getenv_def truthy_def Let_def)
  then obtain s2 ts pr where "submit_databricks_job_try world_ok 5 ''{}'' empty_marker_state =
       (Inr [(''success'', PBool True), (''job_id'', PInt 5), (''run_id'', PInt 7),
             (''parameters'', pr), (''timestamp'', ts),
             (''auth_method'', PStr ''cli_authentication'')], s2)"
    by blast
  then have b: "map_of (fst (submit_databricks_job world_ok 5 ''{}'' empty_marker_state))
        ''success'' = Some (PBool True)
      \<and> map_of (fst (submit_databricks_job world_ok 5 ''{}'' empty_marker_state))
        ''auth_method'' = Some (PStr ''cli_authentication'')"
    by (simp add: submit_databricks_job_def)
  have g: "fst (get_user_authorized_client world_ok OutsideRequestContext empty_marker_state)
      = None"
    by (simp add: get_user_authorized_client_def get_user_access_token_def
        empty_marker_state_def local_state_def os_getenv_def truthy_def Let_def)
  from a b g show ?thesis
    by (simp add: empty_marker_state_def local_state_def)
qed

lemma job_submission_client_policy_examples:
  "job_submission_client world_ok sp_state =
     (Inr (WorkspaceClient 0 None None (environ hosted_state)), sp_state)
   \<and> fst (job_submission_client world_ok local_state) =
       Inr (WorkspaceClient 0 None None (environ local_state))
   \<and> job_submission_client world_ok hosted_state =
       (Inl (Exn ''ValueError''
               (''App service principal not available for job submission. ''
                @ ''Check app configuration.'')), hosted_state)"
proof -
  have a: "databricks_client local_state = Some None
           \<and> \<not> truthy (environ local_state ''DATABRICKS_APP_NAME'')"
    by (simp add: local_state_def truthy_def)
  have b: "databricks_client hosted_state = Some None
           \<and> truthy (environ hosted_state ''DATABRICKS_APP_NAME'')"
    by (simp add: hosted_state_def truthy_def)
  have c: "workspace_client_init world_ok None None (environ local_state) = None"
    by (simp add: world_ok_def)
  have d: "allocated local_state = 0" by (simp add: local_state_def)
  from job_submission_client_policy [of sp_state world_ok] sp_state_client
  have 1: "job_submission_client world_ok sp_state =
     (Inr (WorkspaceClient 0 None None (environ hosted_state)), sp_state)"
    by simp
  from job_submission_client_policy [of local_state world_ok] a c d
  have 2: "fst (job_submission_client world_ok local_state) =
       Inr (WorkspaceClient 0 None None (environ local_state))"
    by simp
  from job_submission_client_policy [of hosted_state world_ok] b
  have 3: "job_submission_client world_ok hosted_state =
       (Inl (Exn ''ValueError''
               (''App service principal not available for job submission. ''
                @ ''Check app configuration.'')), hosted_state)"
    by simp
  from 1 2 3 show ?thesis by simp
qed

section \<open>Lifetime of clients\<close>

lemma resolution_success_cases:
  assumes "fst (get_user_authorized_client x req s) = Some c"
  shows "(environ s ''DATABRICKS_APP_NAME'' = None
          \<and> c = WorkspaceClient (allocated s) None None
                 ((environ s)(''DATABRICKS_HOST'' := None, ''DATABRICKS_CLIENT_ID'' := None,
                              ''DATABRICKS_CLIENT_SECRET'' := None)))
         \<or> (\<exists>h t. environ s ''DATABRICKS_APP_NAME'' \<noteq> None
                \<and> environ s ''DATABRICKS_HOST'' = Some h
                \<and> fst (get_user_access_token req s) = Some t
                \<and> c = WorkspaceClient (allocated s) (Some h) (Some t)
                       ((environ s)(''DATABRICKS_CLIENT_ID'' := None,
                                    ''DATABRICKS_CLIENT_SECRET'' := None)))"
proof -
  obtain t s1 where g: "get_user_access_token req s = (t, s1)"
    by (cases "get_user_access_token req s")
  have e1: "environ s1 = environ s" and a1: "allocated s1 = allocated s"
    using get_user_access_token_frame [of req s] g by simp_all
  show ?thesis
  proof (cases "environ s ''DATABRICKS_APP_NAME''")
    case None
    with assms show ?thesis
      by (simp add: get_user_authorized_client_def g os_getenv_def e1 a1 Let_def
          new_WorkspaceClient_def split: option.splits)
  next
    case (Some app)
    show ?thesis
    proof (cases "truthy t \<and> truthy (environ s ''DATABRICKS_HOST'')")
      case False
      with assms Some show ?thesis
        by (auto simp: get_user_authorized_client_def g os_getenv_def e1 Let_def
            split: if_splits)
    next
      case True
      then obtain h tok where h: "environ s ''DATABRICKS_HOST'' = Some h" and tk: "t = Some tok"
        by (auto simp: truthy_def split: option.splits)
      with assms Some True show ?thesis
        by (simp add: get_user_authorized_client_def g os_getenv_def e1 a1 Let_def
            new_WorkspaceClient_def split: option.splits)
    qed
  qed
qed

lemma aux_fields_after_resolution:
  "databricks_client (snd (get_user_authorized_client x req s)) = databricks_client s
   \<and> allocated (snd (get_user_authorized_client x req s)) =
       (if fst (get_user_authorized_client x req s) = None then allocated s
        else Suc (allocated s))"
proof -
  obtain t s1 where g: "get_user_access_token req s = (t, s1)"
    by (cases "get_user_access_token req s")
  have e1: "environ s1 = environ s" and a1: "allocated s1 = allocated s"
    and d1: "databricks_client s1 = databricks_client s"
    using get_user_access_token_frame [of req s] g by simp_all
  show ?thesis
  proof (cases "environ s ''DATABRICKS_APP_NAME''")
    case None
    then show ?thesis
      by (simp add: get_user_authorized_client_def g os_getenv_def e1 a1 d1 Let_def
          new_WorkspaceClient_def split: option.splits)
  next
    case (Some app)
    show ?thesis
    proof (cases "truthy t \<and> truthy (environ s ''DATABRICKS_HOST'')")
      case False
      with Some show ?thesis
        by (auto simp: get_user_authorized_client_def g os_getenv_def e1 a1 d1 Let_def)
    next
      case True
      with Some show ?thesis
        by (simp add: get_user_authorized_client_def g os_getenv_def e1 a1 d1 Let_def
            new_WorkspaceClient_def split: option.splits)
    qed
  qed
qed

text \<open>
  C8, as stated, fails for the client used by job submission: the client constructed by
  \<^verbatim>\<open>setup_databricks_client\<close> at start-up is kept in the module-level variable
  and handed out on every call. Here it is object \<open>0\<close>, which exists before the call
  (one object has been allocated), and the call after a job submission yields the same
  object again.
\<close>

theorem service_principal_client_is_cached:
  "fst (job_submission_client world_ok sp_state) =
     Inr (WorkspaceClient 0 None None (environ hosted_state))
   \<and> allocated sp_state = 1
   \<and> fst (job_submission_client world_ok
            (snd (submit_databricks_job world_ok 5 [] sp_state))) =
       Inr (WorkspaceClient 0 None None (environ hosted_state))"
proof -
  have a: "allocated sp_state = 1"
    by (simp add: sp_state_def setup_databricks_client_def new_WorkspaceClient_def world_ok_def
        hosted_state_def send_to_azure_logs_def truthy_def logger_info_def)
  have b: "databricks_client (snd (submit_databricks_job world_ok 5 [] sp_state)) =
      Some (Some (WorkspaceClient 0 None None (environ hosted_state)))"
    by (simp add: sp_state_client)
  show ?thesis
    by (simp add: a job_submission_client_cached [OF sp_state_client]
        job_submission_client_cached [OF b])
qed

text \<open>
  C8, amended. Every client that \<^verbatim>\<open>get_user_authorized_client\<close> returns is a
  newly constructed object (its number is the first unused one), bound to exactly one
  credential source: either the host and token it was given, with the service-principal
  variables removed from its configuration, or the CLI credentials, with the host and the
  service-principal variables removed. The call does not store it in the module-level
  variable, and any later call that returns a client returns a different object.
\<close>

theorem user_client_is_fresh:
  assumes "fst (get_user_authorized_client x req s) = Some c"
  shows "client_ref c = allocated s
     \<and> allocated (snd (get_user_authorized_client x req s)) = Suc (allocated s)
     \<and> databricks_client (snd (get_user_authorized_client x req s)) = databricks_client s
     \<and> ((\<exists>h t. client_host c = Some h \<and> client_token c = Some t
                \<and> config_env c ''DATABRICKS_CLIENT_ID'' = None
                \<and> config_env c ''DATABRICKS_CLIENT_SECRET'' = None)
          \<or> (client_host c = None \<and> client_token c = None
              \<and> config_env c ''DATABRICKS_HOST'' = None
              \<and> config_env c ''DATABRICKS_CLIENT_ID'' = None
              \<and> config_env c ''DATABRICKS_CLIENT_SECRET'' = None))
     \<and> (\<forall>x' req' c'.
            fst (get_user_authorized_client x' req' (snd (get_user_authorized_client x req s)))
              = Some c'
            \<longrightarrow> client_ref c' \<noteq> client_ref c)"
proof -
  have r: "client_ref c = allocated s"
    using resolution_success_cases [OF assms] by auto
  have a: "allocated (snd (get_user_authorized_client x req s)) = Suc (allocated s)"
    using aux_fields_after_resolution [of x req s] assms by simp
  have d: "databricks_client (snd (get_user_authorized_client x req s)) = databricks_client s"
    using aux_fields_after_resolution [of x req s] by simp
  have src: "(\<exists>h t. client_host c = Some h \<and> client_token c = Some t
                \<and> config_env c ''DATABRICKS_CLIENT_ID'' = None
                \<and> config_env c ''DATABRICKS_CLIENT_SECRET'' = None)
          \<or> (client_host c = None \<and> client_token c = None
              \<and> config_env c ''DATABRICKS_HOST'' = None
              \<and> config_env c ''DATABRICKS_CLIENT_ID'' = None
              \<and> config_env c ''DATABRICKS_CLIENT_SECRET'' = None)"
    using resolution_success_cases [OF assms] by auto
  have nxt: "client_ref c' \<noteq> client_ref c"
    if "fst (get_user_authorized_client x' req' (snd (get_user_authorized_client x req s)))
          = Some c'" for x' req' c'
  proof -
    from resolution_success_cases [OF that]
    have "client_ref c' = allocated (snd (get_user_authorized_client x req s))" by auto
    with a r show ?thesis by simp
  qed
  from r a d src nxt show ?thesis by blast
qed

lemma second_call_example:
  "map_option client_ref
     (fst (get_user_authorized_client world_ok token_request
             (snd (get_user_authorized_client world_ok token_request hosted_state)))) = Some 1"
proof -
  have e: "environ (snd (get_user_authorized_client world_ok token_request hosted_state))
             = environ hosted_state"
    by (rule environ_restored_when_nonempty) (simp_all add: hosted_state_def)
  have a: "allocated (snd (get_user_authorized_client world_ok token_request hosted_state)) = 1"
    using aux_fields_after_resolution [of world_ok token_request hosted_state]
    by (simp add: get_user_authorized_client_def get_user_access_token_def token_request_def
        hosted_state_def os_getenv_def truthy_def Let_def new_WorkspaceClient_def world_ok_def)
  obtain t s1 where g: "get_user_access_token token_request
      (snd (get_user_authorized_client world_ok token_request hosted_state)) = (t, s1)"
    by (cases "get_user_access_token token_request
      (snd (get_user_authorized_client world_ok token_request hosted_state))")
  have t: "t = Some ''user-token''"
    using g by (auto simp: get_user_access_token_def token_request_def truthy_def Let_def)
  have e1: "environ s1 = environ hosted_state" and a1: "allocated s1 = 1"
    using get_user_access_token_frame
      [of token_request "snd (get_user_authorized_client world_ok token_request hosted_state)"]
      g e a by simp_all
  show ?thesis
    unfolding get_user_authorized_client_def [of world_ok token_request
        "snd (get_user_authorized_client world_ok token_request hosted_state)"] g
    by (simp add: t e1 a1 os_getenv_def truthy_def Let_def new_WorkspaceClient_def
        world_ok_def hosted_state_def)
qed

theorem user_client_is_fresh_witness:
  "fst (get_user_authorized_client world_ok token_request hosted_state) =
     Some (WorkspaceClient 0 (Some ''https://adb.example.net'') (Some ''user-token'')
       ((environ hosted_state)(''DATABRICKS_CLIENT_ID'' := None,
                                ''DATABRICKS_CLIENT_SECRET'' := None)))
   \<and> allocated (snd (get_user_authorized_client world_ok token_request hosted_state)) = 1
   \<and> databricks_client (snd (get_user_authorized_client world_ok token_request hosted_state))
       = Some None
   \<and> map_option client_ref
         (fst (get_user_authorized_client world_ok token_request
                 (snd (get_user_authorized_client world_ok token_request hosted_state))))
       = Some 1
   \<and> map_option client_ref
         (fst (get_user_authorized_client world_ok token_request
                 (snd (get_user_authorized_client world_ok token_request hosted_state))))
       \<noteq> Some 0"
proof -
  have a: "fst (get_user_authorized_client world_ok token_request hosted_state) =
     Some (WorkspaceClient 0 (Some ''https://adb.example.net'') (Some ''user-token'')
       ((environ hosted_state)(''DATABRICKS_CLIENT_ID'' := None,
                                ''DATABRICKS_CLIENT_SECRET'' := None)))"
    by (simp add: get_user_authorized_client_def get_user_access_token_def token_request_def
        hosted_state_def os_getenv_def truthy_def Let_def new_WorkspaceClient_def world_ok_def)
  have b: "allocated hosted_state = 0" "databricks_client hosted_state = Some None"
    by (simp_all add: hosted_state_def)
  from user_client_is_fresh [OF a] a b second_call_example show ?thesis by simp
qed

section \<open>Results of the boundary operations\<close>

lemma format_results_success:
  "map_of (format_results x r) ''success'' = Some (PBool True)"
  by (simp add: format_results_def Let_def split: option.splits)

lemma DataFrame_columns_empty:
  "DataFrame_columns rows = [] \<longleftrightarrow> (\<forall>row \<in> set rows. row = [])"
proof -
  have "foldr (\<lambda>r n. max (length r) n) rows 0 = 0 \<longleftrightarrow> (\<forall>row \<in> set rows. row = [])"
    by (induction rows) auto
  then show ?thesis by (simp add: DataFrame_columns_def)
qed

lemma length_to_dict_records:
  "length (to_dict_records x rows) = (if \<forall>row \<in> set rows. row = [] then 0 else length rows)"
  by (simp add: to_dict_records_def DataFrame_columns_empty)

lemma format_results_no_rows:
  assumes "result r = None
           \<or> (\<exists>rd. result r = Some rd \<and> (data_array rd = None \<or> data_array rd = Some []))"
  shows "format_results x r =
     [(''success'', PBool True), (''statement_id'', opt_str (statement_id r)),
      (''data'', PList []), (''columns'', PList []), (''row_count'', PInt 0)]"
  using assms by (auto simp: format_results_def Let_def)

lemma format_results_rows:
  "\<exists>recs. map_of (format_results x r) ''data'' = Some (PList recs)
     \<and> map_of (format_results x r) ''row_count'' =
         Some (PInt (int (length (case result r of
                                    None \<Rightarrow> []
                                  | Some rd \<Rightarrow> (case data_array rd of
                                                 None \<Rightarrow> [] | Some a \<Rightarrow> a)))))
     \<and> ((\<exists>rd a row. result r = Some rd \<and> data_array rd = Some a
                      \<and> row \<in> set a \<and> row \<noteq> [])
         \<longrightarrow> map_of (format_results x r) ''row_count'' = Some (PInt (int (length recs))))"
proof (cases "result r")
  case None
  then show ?thesis by (simp add: format_results_def)
next
  case (Some rd)
  note rd = this
  show ?thesis
  proof (cases "data_array rd")
    case None
    with rd show ?thesis by (simp add: format_results_def)
  next
    case (Some a)
    with rd show ?thesis
      by (cases "a = []") (auto simp: format_results_def length_to_dict_records)
  qed
qed

lemma execute_sql_query_try_success:
  assumes "fst (execute_sql_query_try x req q pj w s) = Inr d"
  shows "\<exists>c wid stmt ps r. execute_statement x c wid stmt ps = Inr r \<and> d = format_results x r"
proof (cases "if pj \<noteq> [] then json_loads x pj else Inr (PDict [])")
  case (Inl e)
  with assms show ?thesis by (simp add: execute_sql_query_try_def)
next
  case (Inr v)
  note p = this
  obtain vr s1 where val: "SQLQueryRequest x q v (if truthy w then w else None) s = (vr, s1)"
    by (cases "SQLQueryRequest x q v (if truthy w then w else None) s")
  show ?thesis
  proof (cases vr)
    case (Inl e)
    with assms p val show ?thesis by (simp add: execute_sql_query_try_def)
  next
    case (Inr rq)
    note v' = this
    show ?thesis
    proof (cases "if truthy (sql_warehouse_id rq) then sql_warehouse_id rq
                  else os_getenv ''SQL_WAREHOUSE_ID'' s1")
      case None
      with assms p val v' show ?thesis by (simp add: execute_sql_query_try_def)
    next
      case (Some wid)
      note wh = this
      obtain cr s2 where g: "get_user_authorized_client x req s1 = (cr, s2)"
        by (cases "get_user_authorized_client x req s1")
      show ?thesis
      proof (cases "wid = []")
        case True
        with assms p val v' wh show ?thesis by (simp add: execute_sql_query_try_def)
      next
        case False
        note ne = this
        show ?thesis
        proof (cases cr)
          case None
          with assms p val v' wh ne g show ?thesis by (simp add: execute_sql_query_try_def)
        next
          case (Some c)
          note cl = this
          show ?thesis
          proof (cases "execute_statement x c wid (sql_query_template rq)
                         (map (\<lambda>(key, value). (key, py_str x value)) (sql_parameters rq))")
            case (Inl e)
            with assms p val v' wh ne g cl show ?thesis
              by (simp add: execute_sql_query_try_def Let_def)
          next
            case (Inr r)
            with assms p val v' wh ne g cl have "d = format_results x r"
              by (simp add: execute_sql_query_try_def Let_def)
            with Inr show ?thesis by blast
          qed
        qed
      qed
    qed
  qed
qed

lemma execute_sql_query_cases:
  "(\<exists>e. fst (execute_sql_query x req q pj w s) =
           [(''success'', PBool False),
            (''error'', PStr (''Error ('' @ utc_now x @ ''): '' @ exn_str e))])
   \<or> (\<exists>d. fst (execute_sql_query_try x req q pj w s) = Inr d
           \<and> fst (execute_sql_query x req q pj w s) = d)"
proof -
  obtain r s1 where t: "execute_sql_query_try x req q pj w s = (r, s1)"
    by (cases "execute_sql_query_try x req q pj w s")
  show ?thesis
    by (cases r) (auto simp: execute_sql_query_def t handle_error_def Let_def)
qed


lemma submit_databricks_job_try_success:
  assumes "fst (submit_databricks_job_try x jid pj s) = Inr d"
  shows "map_of d ''success'' = Some (PBool True)"
proof (cases "if pj \<noteq> [] then json_loads x pj else Inr (PDict [])")
  case (Inl e)
  with assms show ?thesis by (simp add: submit_databricks_job_try_def)
next
  case (Inr ps)
  note p = this
  show ?thesis
  proof (cases "JobSubmissionRequest x jid ps")
    case (Inl e)
    with assms p show ?thesis by (simp add: submit_databricks_job_try_def)
  next
    case (Inr jr)
    note v = this
    obtain r s1 where j: "job_submission_client x s = (r, s1)"
      by (cases "job_submission_client x s")
    show ?thesis
    proof (cases r)
      case (Inl e)
      with assms p v j show ?thesis by (simp add: submit_databricks_job_try_def)
    next
      case (Inr c)
      with assms p v j show ?thesis
        by (cases "run_now x c (job_id jr) (job_parameters jr)")
           (auto simp: submit_databricks_job_try_def Let_def)
    qed
  qed
qed

lemma submit_databricks_job_cases:
  "(\<exists>e. fst (submit_databricks_job x jid pj s) =
           [(''success'', PBool False),
            (''error'', PStr (''Error ('' @ utc_now x @ ''): '' @ exn_str e))])
   \<or> (\<exists>d. fst (submit_databricks_job_try x jid pj s) = Inr d
           \<and> fst (submit_databricks_job x jid pj s) = d)"
proof -
  obtain r s1 where t: "submit_databricks_job_try x jid pj s = (r, s1)"
    by (cases "submit_databricks_job_try x jid pj s")
  show ?thesis
    by (cases r) (auto simp: submit_databricks_job_def t handle_error_def Let_def)
qed

lemma call_model_serving_endpoint_try_success:
  assumes "fst (call_model_serving_endpoint_try x req n ij s) = Inr d"
  shows "map_of d ''success'' = Some (PBool True)"
proof (cases "if ij \<noteq> [] then json_loads x ij else Inr (PDict [])")
  case (Inl e)
  with assms show ?thesis by (simp add: call_model_serving_endpoint_try_def)
next
  case (Inr inputs)
  note p = this
  obtain cr s1 where g: "get_user_authorized_client x req s = (cr, s1)"
    by (cases "get_user_authorized_client x req s")
  show ?thesis
  proof (cases cr)
    case None
    with assms p g show ?thesis by (simp add: call_model_serving_endpoint_try_def)
  next
    case (Some c)
    note cl = this
    show ?thesis
    proof (cases "build_messages inputs")
      case (Inl e)
      with assms p g cl show ?thesis
        by (simp add: call_model_serving_endpoint_try_def Let_def)
    next
      case (Inr ms)
      with assms p g cl show ?thesis
        by (cases "serving_query x c n ms")
           (auto simp: call_model_serving_endpoint_try_def Let_def)
    qed
  qed
qed

lemma call_model_serving_endpoint_cases:
  "(\<exists>e. fst (call_model_serving_endpoint x req n ij s) =
           [(''success'', PBool False),
            (''error'', PStr (''Error ('' @ utc_now x @ ''): '' @ exn_str e))])
   \<or> (\<exists>d. fst (call_model_serving_endpoint_try x req n ij s) = Inr d
           \<and> fst (call_model_serving_endpoint x req n ij s) = d)"
proof -
  obtain r s1 where t: "call_model_serving_endpoint_try x req n ij s = (r, s1)"
    by (cases "call_model_serving_endpoint_try x req n ij s")
  show ?thesis
    by (cases r) (auto simp: call_model_serving_endpoint_def t handle_error_def Let_def)
qed

text \<open>
  C6. For every input, every behaviour of the external calls and every state, each of
  \<^verbatim>\<open>execute_sql_query\<close>, \<^verbatim>\<open>submit_databricks_job\<close> and
  \<^verbatim>\<open>call_model_serving_endpoint\<close> returns a dictionary whose \<^verbatim>\<open>success\<close>
  entry is a boolean, with a string under \<^verbatim>\<open>error\<close> when it is false. Every
  exception raised in the body (malformed JSON, failed validation, missing warehouse,
  failed authentication, a failing service call, a value of the wrong type) is a branch of
  the model that ends in the handler, so none reaches the caller.
\<close>

theorem boundary_results_are_structured:
  "((\<exists>b. map_of (fst (execute_sql_query x req q pj w s)) ''success'' = Some (PBool b))
    \<and> (map_of (fst (execute_sql_query x req q pj w s)) ''success'' = Some (PBool False)
        \<longrightarrow> (\<exists>m. map_of (fst (execute_sql_query x req q pj w s)) ''error'' = Some (PStr m))))
   \<and> ((\<exists>b. map_of (fst (submit_databricks_job x jid pj s)) ''success'' = Some (PBool b))
      \<and> (map_of (fst (submit_databricks_job x jid pj s)) ''success'' = Some (PBool False)
          \<longrightarrow> (\<exists>m. map_of (fst (submit_databricks_job x jid pj s)) ''error'' = Some (PStr m))))
   \<and> ((\<exists>b. map_of (fst (call_model_serving_endpoint x req n ij s)) ''success''
             = Some (PBool b))
      \<and> (map_of (fst (call_model_serving_endpoint x req n ij s)) ''success''
            = Some (PBool False)
          \<longrightarrow> (\<exists>m. map_of (fst (call_model_serving_endpoint x req n ij s)) ''error''
                     = Some (PStr m))))"
proof -
  have sql: "(\<exists>b. map_of (fst (execute_sql_query x req q pj w s)) ''success'' = Some (PBool b))
    \<and> (map_of (fst (execute_sql_query x req q pj w s)) ''success'' = Some (PBool False)
        \<longrightarrow> (\<exists>m. map_of (fst (execute_sql_query x req q pj w s)) ''error'' = Some (PStr m)))"
    using execute_sql_query_cases [of x req q pj w s]
  proof
    assume "\<exists>e. fst (execute_sql_query x req q pj w s) =
           [(''success'', PBool False),
            (''error'', PStr (''Error ('' @ utc_now x @ ''): '' @ exn_str e))]"
    then show ?thesis by auto
  next
    assume "\<exists>d. fst (execute_sql_query_try x req q pj w s) = Inr d
           \<and> fst (execute_sql_query x req q pj w s) = d"
    then obtain d where d: "fst (execute_sql_query_try x req q pj w s) = Inr d"
      and e: "fst (execute_sql_query x req q pj w s) = d" by blast
    from execute_sql_query_try_success [OF d] obtain r where "d = format_results x r" by blast
    with e show ?thesis by (auto simp: format_results_success)
  qed
  have job: "(\<exists>b. map_of (fst (submit_databricks_job x jid pj s)) ''success'' = Some (PBool b))
      \<and> (map_of (fst (submit_databricks_job x jid pj s)) ''success'' = Some (PBool False)
          \<longrightarrow> (\<exists>m. map_of (fst (submit_databricks_job x jid pj s)) ''error'' = Some (PStr m)))"
    using submit_databricks_job_cases [of x jid pj s]
  proof
    assume "\<exists>e. fst (submit_databricks_job x jid pj s) =
           [(''success'', PBool False),
            (''error'', PStr (''Error ('' @ utc_now x @ ''): '' @ exn_str e))]"
    then show ?thesis by auto
  next
    assume "\<exists>d. fst (submit_databricks_job_try x jid pj s) = Inr d
           \<and> fst (submit_databricks_job x jid pj s) = d"
    then obtain d where d: "fst (submit_databricks_job_try x jid pj s) = Inr d"
      and e: "fst (submit_databricks_job x jid pj s) = d" by blast
    from submit_databricks_job_try_success [OF d] e show ?thesis by auto
  qed
  have model: "(\<exists>b. map_of (fst (call_model_serving_endpoint x req n ij s)) ''success''
             = Some (PBool b))
      \<and> (map_of (fst (call_model_serving_endpoint x req n ij s)) ''success''
            = Some (PBool False)
          \<longrightarrow> (\<exists>m. map_of (fst (call_model_serving_endpoint x req n ij s)) ''error''
                     = Some (PStr m)))"
    using call_model_serving_endpoint_cases [of x req n ij s]
  proof
    assume "\<exists>e. fst (call_model_serving_endpoint x req n ij s) =
           [(''success'', PBool False),
            (''error'', PStr (''Error ('' @ utc_now x @ ''): '' @ exn_str e))]"
    then show ?thesis by auto
  next
    assume "\<exists>d. fst (call_model_serving_endpoint_try x req n ij s) = Inr d
           \<and> fst (call_model_serving_endpoint x req n ij s) = d"
    then obtain d where d: "fst (call_model_serving_endpoint_try x req n ij s) = Inr d"
      and e: "fst (call_model_serving_endpoint x req n ij s) = d" by blast
    from call_model_serving_endpoint_try_success [OF d] e show ?thesis by auto
  qed
  from sql job model show ?thesis by blast
qed

theorem boundary_results_are_structured_witness:
  "(map_of (fst (execute_sql_query world_bad_json OutsideRequestContext ''SELECT 1'' ''{bad''
                   None local_state)) ''success'' = Some (PBool False)
    \<and> (\<exists>m. map_of (fst (execute_sql_query world_bad_json OutsideRequestContext ''SELECT 1''
                            ''{bad'' None local_state)) ''error'' = Some (PStr m)))
   \<and> (map_of (fst (submit_databricks_job world_bad_json 5 ''{bad'' local_state)) ''success''
         = Some (PBool False)
      \<and> (\<exists>m. map_of (fst (submit_databricks_job world_bad_json 5 ''{bad'' local_state))
                 ''error'' = Some (PStr m)))
   \<and> (map_of (fst (call_model_serving_endpoint world_bad_json OutsideRequestContext
                      ''endpoint'' ''{bad'' local_state)) ''success'' = Some (PBool False)
      \<and> (\<exists>m. map_of (fst (call_model_serving_endpoint world_bad_json OutsideRequestContext
                              ''endpoint'' ''{bad'' local_state)) ''error'' = Some (PStr m)))"
proof -
  have a: "map_of (fst (execute_sql_query world_bad_json OutsideRequestContext ''SELECT 1''
                  ''{bad'' None local_state)) ''success'' = Some (PBool False)"
    by (simp add: execute_sql_query_def execute_sql_query_try_def world_bad_json_def
        world_ok_def handle_error_def Let_def)
  have b: "map_of (fst (submit_databricks_job world_bad_json 5 ''{bad'' local_state))
             ''success'' = Some (PBool False)"
    by (simp add: submit_databricks_job_def submit_databricks_job_try_def world_bad_json_def
        world_ok_def handle_error_def Let_def)
  have c: "map_of (fst (call_model_serving_endpoint world_bad_json OutsideRequestContext
                      ''endpoint'' ''{bad'' local_state)) ''success'' = Some (PBool False)"
    by (simp add: call_model_serving_endpoint_def call_model_serving_endpoint_try_def
        world_bad_json_def world_ok_def handle_error_def Let_def)
  from a b c boundary_results_are_structured
         [of world_bad_json OutsideRequestContext "''SELECT 1''" "''{bad''" None local_state
             5 "''endpoint''" "''{bad''"]
  show ?thesis by blast
qed

text \<open>
  C9. A job id that is not positive fails validation, whatever the parameters string is:
  the body of the \<^verbatim>\<open>try\<close> raises with the state untouched, before a client is
  resolved and before any run is requested, and the result has \<^verbatim>\<open>success\<close> false.
\<close>

theorem non_positive_job_id_rejected:
  assumes "jid \<le> 0"
  shows "(\<exists>e. submit_databricks_job_try x jid pj s = (Inl e, s))
         \<and> map_of (fst (submit_databricks_job x jid pj s)) ''success'' = Some (PBool False)"
proof -
  have v: "\<exists>e. JobSubmissionRequest x jid ps = Inl e" for ps
    using assms by (simp add: JobSubmissionRequest_def validate_job_id_def Let_def)
  have t: "\<exists>e. submit_databricks_job_try x jid pj s = (Inl e, s)"
  proof (cases "if pj \<noteq> [] then json_loads x pj else Inr (PDict [])")
    case (Inl e)
    then show ?thesis by (simp add: submit_databricks_job_try_def)
  next
    case (Inr ps)
    moreover from v obtain e where "JobSubmissionRequest x jid ps = Inl e" by blast
    ultimately show ?thesis by (simp add: submit_databricks_job_try_def)
  qed
  then obtain e where "submit_databricks_job_try x jid pj s = (Inl e, s)" by blast
  then have "map_of (fst (submit_databricks_job x jid pj s)) ''success'' = Some (PBool False)"
    by (simp add: submit_databricks_job_def handle_error_def Let_def)
  with t show ?thesis by blast
qed

theorem non_positive_job_id_rejected_witness:
  "(\<exists>e. submit_databricks_job_try world_ok 0 ''{}'' sp_state = (Inl e, sp_state))
   \<and> map_of (fst (submit_databricks_job world_ok 0 ''{}'' sp_state)) ''success''
       = Some (PBool False)"
proof -
  have "(0::int) \<le> 0" by simp
  from non_positive_job_id_rejected [OF this, of world_ok "''{}''" sp_state]
  show ?thesis .
qed

lemma strip_world_ok: "str_strip world_ok = ascii_strip"
  by (simp add: world_ok_def)

lemma sql_request_example:
  assumes "str_strip x = ascii_strip"
  shows "SQLQueryRequest x ''SELECT :x'' (PDict [])
     (if truthy (Some ''wh'') then Some ''wh'' else None) s =
   (Inr \<lparr>sql_query_template = ''SELECT :x'', sql_parameters = [],
         sql_warehouse_id = Some ''wh''\<rparr>, s)"
  by (simp add: SQLQueryRequest_def validate_query_template_def assms ascii_strip_def
      ascii_isspace_def dict_str_any_def truthy_def)

lemma sql_example:
  assumes "workspace_client_init x = (\<lambda>h t e. None)"
    and "str_strip x = ascii_strip"
    and "execute_statement x = (\<lambda>c w q ps. Inr r)"
  shows "fst (execute_sql_query x OutsideRequestContext ''SELECT :x'' [] (Some ''wh'')
                local_state) = format_results x r"
proof -
  have g: "fst (get_user_authorized_client x OutsideRequestContext local_state) =
      Some (WorkspaceClient 0 None None
        ((environ local_state)(''DATABRICKS_HOST'' := None, ''DATABRICKS_CLIENT_ID'' := None,
                               ''DATABRICKS_CLIENT_SECRET'' := None)))"
    by (simp add: get_user_authorized_client_def get_user_access_token_def
        local_state_def os_getenv_def truthy_def Let_def new_WorkspaceClient_def assms(1))
  obtain c s2 where g': "get_user_authorized_client x OutsideRequestContext local_state
      = (Some c, s2)"
    using g by (cases "get_user_authorized_client x OutsideRequestContext local_state") simp
  have "fst (execute_sql_query_try x OutsideRequestContext ''SELECT :x'' [] (Some ''wh'')
               local_state) = Inr (format_results x r)"
    using sql_request_example [OF assms(2), of local_state]
    by (simp add: execute_sql_query_try_def g' assms(3) truthy_def Let_def)
  then show ?thesis
    by (cases "execute_sql_query_try x OutsideRequestContext ''SELECT :x'' [] (Some ''wh'')
                 local_state") (simp add: execute_sql_query_def)
qed

text \<open>
  C10, as stated, fails. \<^verbatim>\<open>row_count\<close> is the length of the response's
  \<^verbatim>\<open>data_array\<close>, while \<^verbatim>\<open>data\<close> is what pandas makes of it, and pandas
  yields no record for a frame without columns. A response whose only row has no columns
  gives a successful result with \<^verbatim>\<open>row_count\<close> one and an empty \<^verbatim>\<open>data\<close>.
\<close>

theorem row_count_differs_without_columns:
  "fst (execute_sql_query world_zero_columns OutsideRequestContext ''SELECT :x'' []
          (Some ''wh'') local_state) =
     [(''success'', PBool True), (''statement_id'', PStr ''01ef''),
      (''data'', PList []), (''columns'', PList []), (''row_count'', PInt 1)]"
proof -
  have "fst (execute_sql_query world_zero_columns OutsideRequestContext ''SELECT :x'' []
          (Some ''wh'') local_state) =
      format_results world_zero_columns
        \<lparr>statement_id = Some ''01ef'', result = Some \<lparr>data_array = Some [[]]\<rparr>\<rparr>"
    by (rule sql_example) (simp_all add: world_zero_columns_def world_ok_def)
  then show ?thesis
    by (simp add: format_results_def to_dict_records_def DataFrame_columns_def opt_str_def)
qed

text \<open>
  C10, amended. A successful result of \<^verbatim>\<open>execute_sql_query\<close> is the formatted
  response of the statement execution. Its \<^verbatim>\<open>row_count\<close> is the number of rows of
  the response's \<^verbatim>\<open>data_array\<close> (zero when there is no result or no array), and
  this is the number of entries of \<^verbatim>\<open>data\<close> whenever some row has at least one
  column. When the response carries no rows (no result, no data array, or an empty one)
  the result is \<^verbatim>\<open>success\<close> true with empty \<^verbatim>\<open>data\<close>, empty
  \<^verbatim>\<open>columns\<close> and \<^verbatim>\<open>row_count\<close> zero.
\<close>

theorem row_count_counts_rows:
  assumes "map_of (fst (execute_sql_query x req q pj w s)) ''success'' = Some (PBool True)"
  shows "\<exists>c wid stmt ps r recs.
           execute_statement x c wid stmt ps = Inr r
           \<and> fst (execute_sql_query x req q pj w s) = format_results x r
           \<and> map_of (fst (execute_sql_query x req q pj w s)) ''data'' = Some (PList recs)
           \<and> map_of (fst (execute_sql_query x req q pj w s)) ''row_count'' =
               Some (PInt (int (length (case result r of
                                          None \<Rightarrow> []
                                        | Some rd \<Rightarrow> (case data_array rd of
                                                       None \<Rightarrow> [] | Some a \<Rightarrow> a)))))
           \<and> ((\<exists>rd a row. result r = Some rd \<and> data_array rd = Some a
                            \<and> row \<in> set a \<and> row \<noteq> [])
               \<longrightarrow> map_of (fst (execute_sql_query x req q pj w s)) ''row_count''
                     = Some (PInt (int (length recs))))
           \<and> (result r = None
                \<or> (\<exists>rd. result r = Some rd
                         \<and> (data_array rd = None \<or> data_array rd = Some []))
               \<longrightarrow> fst (execute_sql_query x req q pj w s) =
                     [(''success'', PBool True), (''statement_id'', opt_str (statement_id r)),
                      (''data'', PList []), (''columns'', PList []), (''row_count'', PInt 0)])"
proof -
  from execute_sql_query_cases [of x req q pj w s] assms
  obtain d where d: "fst (execute_sql_query_try x req q pj w s) = Inr d"
    and e: "fst (execute_sql_query x req q pj w s) = d" by auto
  from execute_sql_query_try_success [OF d]
  obtain c wid stmt ps r where ex: "execute_statement x c wid stmt ps = Inr r"
    and f: "d = format_results x r" by blast
  from e f have e': "fst (execute_sql_query x req q pj w s) = format_results x r" by simp
  from format_results_rows [of x r]
  obtain recs where recs: "map_of (format_results x r) ''data'' = Some (PList recs)"
    "map_of (format_results x r) ''row_count'' =
         Some (PInt (int (length (case result r of
                                    None \<Rightarrow> []
                                  | Some rd \<Rightarrow> (case data_array rd of
                                                 None \<Rightarrow> [] | Some a \<Rightarrow> a)))))"
    "(\<exists>rd a row. result r = Some rd \<and> data_array rd = Some a \<and> row \<in> set a \<and> row \<noteq> [])
       \<longrightarrow> map_of (format_results x r) ''row_count'' = Some (PInt (int (length recs)))"
    by blast
  have "execute_statement x c wid stmt ps = Inr r
           \<and> fst (execute_sql_query x req q pj w s) = format_results x r
           \<and> map_of (fst (execute_sql_query x req q pj w s)) ''data'' = Some (PList recs)
           \<and> map_of (fst (execute_sql_query x req q pj w s)) ''row_count'' =
               Some (PInt (int (length (case result r of
                                          None \<Rightarrow> []
                                        | Some rd \<Rightarrow> (case data_array rd of
                                                       None \<Rightarrow> [] | Some a \<Rightarrow> a)))))
           \<and> ((\<exists>rd a row. result r = Some rd \<and> data_array rd = Some a
                            \<and> row \<in> set a \<and> row \<noteq> [])
               \<longrightarrow> map_of (fst (execute_sql_query x req q pj w s)) ''row_count''
                     = Some (PInt (int (length recs))))
           \<and> (result r = None
                \<or> (\<exists>rd. result r = Some rd
                         \<and> (data_array rd = None \<or> data_array rd = Some []))
               \<longrightarrow> fst (execute_sql_query x req q pj w s) =
                     [(''success'', PBool True), (''statement_id'', opt_str (statement_id r)),
                      (''data'', PList []), (''columns'', PList []), (''row_count'', PInt 0)])"
    unfolding e' using ex recs format_results_no_rows [of r x] by blast
  then show ?thesis by blast
qed

theorem row_count_counts_rows_witness:
  "(\<exists>recs. map_of (fst (execute_sql_query world_ok OutsideRequestContext ''SELECT :x'' []
                             (Some ''wh'') local_state)) ''data'' = Some (PList recs)
           \<and> map_of (fst (execute_sql_query world_ok OutsideRequestContext ''SELECT :x'' []
                             (Some ''wh'') local_state)) ''row_count''
               = Some (PInt (int (length recs))))
   \<and> map_of (fst (execute_sql_query world_ok OutsideRequestContext ''SELECT :x'' []
                    (Some ''wh'') local_state)) ''row_count'' = Some (PInt 2)
   \<and> fst (execute_sql_query world_no_rows OutsideRequestContext ''SELECT :x'' []
            (Some ''wh'') local_state) =
       [(''success'', PBool True), (''statement_id'', PStr ''01ef''),
        (''data'', PList []), (''columns'', PList []), (''row_count'', PInt 0)]"
proof -
  have r1: "fst (execute_sql_query world_ok OutsideRequestContext ''SELECT :x'' []
                   (Some ''wh'') local_state) =
      format_results world_ok
        \<lparr>statement_id = Some ''01ef'',
         result = Some \<lparr>data_array = Some [[Some ''a'', Some ''b''], [Some ''c'']]\<rparr>\<rparr>"
    by (rule sql_example) (simp_all add: world_ok_def)
  have r2: "fst (execute_sql_query world_no_rows OutsideRequestContext ''SELECT :x'' []
                   (Some ''wh'') local_state) =
      format_results world_no_rows \<lparr>statement_id = Some ''01ef'', result = None\<rparr>"
    by (rule sql_example) (simp_all add: world_no_rows_def world_ok_def)
  have s1: "map_of (fst (execute_sql_query world_ok OutsideRequestContext ''SELECT :x'' []
                    (Some ''wh'') local_state)) ''success'' = Some (PBool True)"
    by (simp add: r1 format_results_success)
  have s2: "map_of (fst (execute_sql_query world_no_rows OutsideRequestContext ''SELECT :x'' []
                    (Some ''wh'') local_state)) ''success'' = Some (PBool True)"
    by (simp add: r2 format_results_success)
  from row_count_counts_rows [OF s1]
  obtain c wid stmt ps r recs
    where ex1: "execute_statement world_ok c wid stmt ps = Inr r"
      and dat: "map_of (fst (execute_sql_query world_ok OutsideRequestContext ''SELECT :x'' []
                               (Some ''wh'') local_state)) ''data'' = Some (PList recs)"
      and imp1: "(\<exists>rd a row. result r = Some rd \<and> data_array rd = Some a
                            \<and> row \<in> set a \<and> row \<noteq> [])
               \<longrightarrow> map_of (fst (execute_sql_query world_ok OutsideRequestContext
                                   ''SELECT :x'' [] (Some ''wh'') local_state)) ''row_count''
                     = Some (PInt (int (length recs)))"
    by blast
  from ex1 have "r = \<lparr>statement_id = Some ''01ef'',
         result = Some \<lparr>data_array = Some [[Some ''a'', Some ''b''], [Some ''c'']]\<rparr>\<rparr>"
    by (simp add: world_ok_def)
  then have "\<exists>rd a row. result r = Some rd \<and> data_array rd = Some a
                            \<and> row \<in> set a \<and> row \<noteq> []"
    by auto
  with imp1 dat
  have 1: "\<exists>recs. map_of (fst (execute_sql_query world_ok OutsideRequestContext ''SELECT :x'' []
                             (Some ''wh'') local_state)) ''data'' = Some (PList recs)
           \<and> map_of (fst (execute_sql_query world_ok OutsideRequestContext ''SELECT :x'' []
                             (Some ''wh'') local_state)) ''row_count''
               = Some (PInt (int (length recs)))"
    by blast
  have 2: "map_of (fst (execute_sql_query world_ok OutsideRequestContext ''SELECT :x'' []
                    (Some ''wh'') local_state)) ''row_count'' = Some (PInt 2)"
    by (simp add: r1 format_results_def)
  from row_count_counts_rows [OF s2]
  obtain c wid stmt ps r where ex: "execute_statement world_no_rows c wid stmt ps = Inr r"
    and imp: "result r = None
                \<or> (\<exists>rd. result r = Some rd
                         \<and> (data_array rd = None \<or> data_array rd = Some []))
               \<longrightarrow> fst (execute_sql_query world_no_rows OutsideRequestContext ''SELECT :x'' []
                        (Some ''wh'') local_state) =
                     [(''success'', PBool True), (''statement_id'', opt_str (statement_id r)),
                      (''data'', PList []), (''columns'', PList []), (''row_count'', PInt 0)]"
    by blast
  from ex have r: "r = \<lparr>statement_id = Some ''01ef'', result = None\<rparr>"
    by (simp add: world_no_rows_def world_ok_def)
  from imp r have 3: "fst (execute_sql_query world_no_rows OutsideRequestContext ''SELECT :x'' []
            (Some ''wh'') local_state) =
       [(''success'', PBool True), (''statement_id'', PStr ''01ef''),
        (''data'', PList []), (''columns'', PList []), (''row_count'', PInt 0)]"
    by (simp add: opt_str_def)
  from 1 2 3 show ?thesis by blast
qed

section \<open>Reporting of resolution failures\<close>

lemma failure_is_logged:
  assumes "fst (get_user_authorized_client x req s) = None"
  shows "\<exists>m. logged (snd (get_user_authorized_client x req s)) \<noteq> []
           \<and> last (logged (snd (get_user_authorized_client x req s))) = (ERROR, m)
           \<and> (m = ''DATABRICKS_HOST environment variable not found''
                \<or> m = ''Ensure user authorization is enabled for this app and the user has granted consent''
                \<or> (\<exists>e. m = ''Failed to create Databricks client: '' @ exn_str e))"
proof -
  obtain t s1 where g: "get_user_access_token req s = (t, s1)"
    by (cases "get_user_access_token req s")
  have e1: "environ s1 = environ s"
    using get_user_access_token_frame [of req s] g by simp
  show ?thesis
  proof (cases "environ s ''DATABRICKS_APP_NAME''")
    case None
    with assms show ?thesis
      by (auto simp: get_user_authorized_client_def g os_getenv_def e1 Let_def
          new_WorkspaceClient_def split: option.splits)
  next
    case (Some app)
    show ?thesis
    proof (cases "truthy t")
      case False
      with Some show ?thesis
        by (simp add: get_user_authorized_client_def g os_getenv_def e1 Let_def)
    next
      case True
      note tt = this
      show ?thesis
      proof (cases "truthy (environ s ''DATABRICKS_HOST'')")
        case False
        with Some tt show ?thesis
          by (simp add: get_user_authorized_client_def g os_getenv_def e1 Let_def)
      next
        case True
        with assms Some tt show ?thesis
          by (auto simp: get_user_authorized_client_def g os_getenv_def e1 Let_def
              new_WorkspaceClient_def split: option.splits)
      qed
    qed
  qed
qed

lemma unable_to_authenticate_cong:
  "environ s' ''DATABRICKS_APP_NAME'' = environ s ''DATABRICKS_APP_NAME''
   \<Longrightarrow> unable_to_authenticate s' = unable_to_authenticate s"
  by (simp add: unable_to_authenticate_def os_getenv_def)

lemma call_model_serving_endpoint_unauthenticated:
  assumes "fst (get_user_authorized_client x req s) = None"
    and "(if ij \<noteq> [] then json_loads x ij else Inr (PDict [])) = Inr v"
  shows "fst (call_model_serving_endpoint x req n ij s) =
     [(''success'', PBool False),
      (''error'', PStr (''Error ('' @ utc_now x @ ''): '' @ exn_str (unable_to_authenticate s)))]"
proof -
  obtain s1 where g: "get_user_authorized_client x req s = (None, s1)"
    using assms(1) by (cases "get_user_authorized_client x req s") simp
  have "environ s1 ''DATABRICKS_APP_NAME'' = environ s ''DATABRICKS_APP_NAME''"
    using environ_app_name_after_resolution [of x req s] g by simp
  then have u: "unable_to_authenticate s1 = unable_to_authenticate s"
    by (rule unable_to_authenticate_cong)
  from assms(2) g u show ?thesis
    by (simp add: call_model_serving_endpoint_def call_model_serving_endpoint_try_def
        handle_error_def Let_def)
qed

lemma validate_query_template_environ:
  "environ (snd (validate_query_template x v s)) = environ s"
  by (simp add: validate_query_template_def)

lemma SQLQueryRequest_environ:
  "environ (snd (SQLQueryRequest x q v w s)) = environ s"
proof -
  obtain r s1 where vq: "validate_query_template x q s = (r, s1)"
    by (cases "validate_query_template x q s")
  have e: "environ s1 = environ s"
    using validate_query_template_environ [of x q s] vq by simp
  show ?thesis
    by (cases r; cases "dict_str_any v") (simp_all add: SQLQueryRequest_def vq e)
qed

lemma execute_sql_query_unauthenticated:
  assumes "(if pj \<noteq> [] then json_loads x pj else Inr (PDict [])) = Inr v"
    and "SQLQueryRequest x q v (if truthy w then w else None) s = (Inr rq, s1)"
    and "(if truthy (sql_warehouse_id rq) then sql_warehouse_id rq
          else os_getenv ''SQL_WAREHOUSE_ID'' s1) = Some wid"
    and "wid \<noteq> []"
    and "fst (get_user_authorized_client x req s1) = None"
  shows "fst (execute_sql_query x req q pj w s) =
     [(''success'', PBool False),
      (''error'', PStr (''Error ('' @ utc_now x @ ''): '' @ exn_str (unable_to_authenticate s)))]"
proof -
  obtain s2 where g: "get_user_authorized_client x req s1 = (None, s2)"
    using assms(5) by (cases "get_user_authorized_client x req s1") simp
  have "environ s1 = environ s"
    using SQLQueryRequest_environ [of x q v "if truthy w then w else None" s] assms(2) by simp
  moreover have "environ s2 ''DATABRICKS_APP_NAME'' = environ s1 ''DATABRICKS_APP_NAME''"
    using environ_app_name_after_resolution [of x req s1] g by simp
  ultimately have "environ s2 ''DATABRICKS_APP_NAME'' = environ s ''DATABRICKS_APP_NAME''"
    by simp
  then have u: "unable_to_authenticate s2 = unable_to_authenticate s"
    by (rule unable_to_authenticate_cong)
  from assms(1-4) g have "execute_sql_query_try x req q pj w s = (Inl (unable_to_authenticate s2), s2)"
    by (simp add: execute_sql_query_try_def)
  with u show ?thesis
    by (simp add: execute_sql_query_def handle_error_def Let_def)
qed

text \<open>
  C7, as stated, fails: \<^verbatim>\<open>get_user_authorized_client\<close> returns \<^verbatim>\<open>None\<close> on
  every failure path, so the caller cannot tell a missing host configuration from a missing
  token. In a hosted application without \<^verbatim>\<open>DATABRICKS_HOST\<close> both failures
  return the same value, and the user is shown the same text for both, which names consent
  also when the host is what is missing.
\<close>

theorem failure_kinds_not_distinguished:
  "fst (get_user_authorized_client world_ok token_request no_host_state) = None
   \<and> fst (get_user_authorized_client world_ok OutsideRequestContext no_host_state) = None
   \<and> fst (call_model_serving_endpoint world_ok token_request ''endpoint'' [] no_host_state) =
       [(''success'', PBool False),
        (''error'', PStr (''Error (2025-01-01T00:00:00+00:00): Unable to authenticate with ''
                          @ ''Databricks. Ensure user authorization is enabled for this app ''
                          @ ''and the user has granted consent.''))]
   \<and> fst (call_model_serving_endpoint world_ok OutsideRequestContext ''endpoint'' []
            no_host_state) =
       fst (call_model_serving_endpoint world_ok token_request ''endpoint'' [] no_host_state)"
proof -
  have a: "fst (get_user_authorized_client world_ok token_request no_host_state) = None"
    by (simp add: get_user_authorized_client_def get_user_access_token_def token_request_def
        no_host_state_def hosted_state_def os_getenv_def truthy_def Let_def)
  have b: "fst (get_user_authorized_client world_ok OutsideRequestContext no_host_state) = None"
    by (simp add: get_user_authorized_client_def get_user_access_token_def
        no_host_state_def hosted_state_def os_getenv_def truthy_def Let_def)
  have j: "(if ([]::string) \<noteq> [] then json_loads world_ok [] else Inr (PDict []))
             = Inr (PDict [])" by simp
  have u: "exn_str (unable_to_authenticate no_host_state) =
     ''Unable to authenticate with Databricks. Ensure user authorization is enabled for this app ''
     @ ''and the user has granted consent.''"
    by (simp add: unable_to_authenticate_def no_host_state_def hosted_state_def os_getenv_def
        truthy_def)
  have n: "utc_now world_ok = ''2025-01-01T00:00:00+00:00''" by (simp add: world_ok_def)
  from call_model_serving_endpoint_unauthenticated [OF a j, of "''endpoint''"]
       call_model_serving_endpoint_unauthenticated [OF b j, of "''endpoint''"] a b
  show ?thesis by (simp add: u n)
qed

text \<open>
  C7, amended. Every failure path of \<^verbatim>\<open>get_user_authorized_client\<close> returns
  \<^verbatim>\<open>None\<close> and writes the cause to the log, as its last record, of level
  \<^verbatim>\<open>ERROR\<close>: the missing host, the missing token, or the exception of the
  constructor. The callers \<^verbatim>\<open>call_model_serving_endpoint\<close> and
  \<^verbatim>\<open>execute_sql_query\<close> do not report that cause: they report one of two fixed
  texts, chosen by whether \<^verbatim>\<open>DATABRICKS_APP_NAME\<close> is non-empty, behind the
  prefix that \<^verbatim>\<open>handle_error\<close> adds.
\<close>

theorem resolution_failure_is_logged_only:
  "(fst (get_user_authorized_client x req s) = None \<longrightarrow>
      (\<exists>m. logged (snd (get_user_authorized_client x req s)) \<noteq> []
           \<and> last (logged (snd (get_user_authorized_client x req s))) = (ERROR, m)
           \<and> (m = ''DATABRICKS_HOST environment variable not found''
                \<or> m = ''Ensure user authorization is enabled for this app and the user has granted consent''
                \<or> (\<exists>e. m = ''Failed to create Databricks client: '' @ exn_str e))))
   \<and> (fst (get_user_authorized_client x req s) = None
        \<and> (if ij \<noteq> [] then json_loads x ij else Inr (PDict [])) = Inr v \<longrightarrow>
        fst (call_model_serving_endpoint x req n ij s) =
          [(''success'', PBool False),
           (''error'', PStr (''Error ('' @ utc_now x @ ''): ''
                             @ exn_str (unable_to_authenticate s)))])
   \<and> ((if pj \<noteq> [] then json_loads x pj else Inr (PDict [])) = Inr v'
        \<and> SQLQueryRequest x q v' (if truthy w then w else None) s = (Inr rq, s')
        \<and> (if truthy (sql_warehouse_id rq) then sql_warehouse_id rq
             else os_getenv ''SQL_WAREHOUSE_ID'' s') = Some wid
        \<and> wid \<noteq> []
        \<and> fst (get_user_authorized_client x req s') = None \<longrightarrow>
        fst (execute_sql_query x req q pj w s) =
          [(''success'', PBool False),
           (''error'', PStr (''Error ('' @ utc_now x @ ''): ''
                             @ exn_str (unable_to_authenticate s)))])"
  using failure_is_logged [of x req s]
    call_model_serving_endpoint_unauthenticated [of x req s ij v n]
    execute_sql_query_unauthenticated [of pj x v' q w s rq s' wid req]
  by blast

theorem resolution_failure_is_logged_only_witness:
  "fst (get_user_authorized_client world_ok token_request no_host_state) = None
   \<and> (\<exists>m. last (logged (snd (get_user_authorized_client world_ok token_request no_host_state)))
             = (ERROR, m))
   \<and> fst (call_model_serving_endpoint world_ok token_request ''endpoint'' [] no_host_state) =
          [(''success'', PBool False),
           (''error'', PStr (''Error ('' @ utc_now world_ok @ ''): ''
                             @ exn_str (unable_to_authenticate no_host_state)))]
   \<and> fst (execute_sql_query world_ok token_request ''SELECT :x'' [] (Some ''wh'')
            no_host_state) =
          [(''success'', PBool False),
           (''error'', PStr (''Error ('' @ utc_now world_ok @ ''): ''
                             @ exn_str (unable_to_authenticate no_host_state)))]"
proof -
  have a: "fst (get_user_authorized_client world_ok token_request no_host_state) = None"
    by (simp add: get_user_authorized_client_def get_user_access_token_def token_request_def
        no_host_state_def hosted_state_def os_getenv_def truthy_def Let_def)
  have j: "(if ([]::string) \<noteq> [] then json_loads world_ok [] else Inr (PDict []))
             = Inr (PDict [])" by simp
  have w: "(if truthy (sql_warehouse_id
                         \<lparr>sql_query_template = ''SELECT :x'', sql_parameters = [],
                          sql_warehouse_id = Some ''wh''\<rparr>)
            then sql_warehouse_id
                   \<lparr>sql_query_template = ''SELECT :x'', sql_parameters = [],
                    sql_warehouse_id = Some ''wh''\<rparr>
            else os_getenv ''SQL_WAREHOUSE_ID'' no_host_state) = Some ''wh''"
    by (simp add: truthy_def)
  have ne: "''wh'' \<noteq> []" by simp
  from resolution_failure_is_logged_only
         [where x = world_ok and req = token_request and s = no_host_state and ij = "[]"
            and v = "PDict []" and n = "''endpoint''" and pj = "[]" and v' = "PDict []"
            and q = "''SELECT :x''" and w = "Some ''wh''"
            and rq = "\<lparr>sql_query_template = ''SELECT :x'', sql_parameters = [],
                       sql_warehouse_id = Some ''wh''\<rparr>"
            and s' = no_host_state and wid = "''wh''"]
       a j w ne sql_request_example [OF strip_world_ok, of no_host_state]
  show ?thesis by blast
qed

end
